theory Spec2Isabelle
  imports Main "HOL-Library.Word" "HOL-Library.Log_Nat"
begin

section \<open>Values crossing the Tango client interface\<close>

text \<open>
  \<^verbatim>\<open>area_learning_app.cc\<close> talks to the tracking service through the Tango client
  library. The library is not part of the repository; every one of its functions is a
  parameter of the model (see \<open>tango_service\<close> below). Only the values the application
  code inspects are given a shape here.
\<close>

text \<open>\<^verbatim>\<open>TangoErrorType\<close>: the code compares return codes with \<^verbatim>\<open>TANGO_SUCCESS\<close> only.\<close>

definition TANGO_SUCCESS :: int where
  "TANGO_SUCCESS = 0"

definition TANGO_ERROR :: int where
  "TANGO_ERROR = - 1"

text \<open>
  A C++ local that the application declares without an initialiser
  (\<^verbatim>\<open>char* output;\<close>, \<^verbatim>\<open>TangoAreaDescriptionMetadata metadata;\<close>, \<^verbatim>\<open>TangoUUID uuid;\<close>)
  or with \<^verbatim>\<open>nullptr\<close> (\<^verbatim>\<open>char* uuid_list = nullptr;\<close>), and that a library call may or
  may not fill in.
\<close>

datatype 'a cvar = Indeterminate | Nullptr | Ptr 'a

text \<open>
  What a library call does to an out-parameter: \<open>None\<close> leaves the caller's variable as
  it was, \<open>Some v\<close> stores \<open>v\<close> in it.
\<close>

definition assign_out :: "'a cvar \<Rightarrow> 'a cvar option \<Rightarrow> 'a cvar" where
  "assign_out old written = (case written of None \<Rightarrow> old | Some v \<Rightarrow> v)"

text \<open>
  The ways a call of this file leaves defined behaviour: \<^verbatim>\<open>std::string(p)\<close> for a null
  or never-assigned \<^verbatim>\<open>p\<close>, and the conversion of a \<^verbatim>\<open>double\<close> that does not fit to
  \<^verbatim>\<open>int\<close>.
\<close>

datatype fault = NullString | IndeterminateString | DoubleToIntOutOfRange

definition std_string :: "string cvar \<Rightarrow> fault + string" where
  "std_string p =
     (case p of
        Ptr s \<Rightarrow> Inr s
      | Nullptr \<Rightarrow> Inl NullString
      | Indeterminate \<Rightarrow> Inl IndeterminateString)"

text \<open>A metadata handle (\<^verbatim>\<open>TangoAreaDescriptionMetadata\<close>, an opaque pointer).\<close>

type_synonym handle = nat

datatype TangoCoordinateFrameType =
    TANGO_COORDINATE_FRAME_GLOBAL_WGS84
  | TANGO_COORDINATE_FRAME_AREA_DESCRIPTION
  | TANGO_COORDINATE_FRAME_START_OF_SERVICE
  | TANGO_COORDINATE_FRAME_PREVIOUS_DEVICE_POSE
  | TANGO_COORDINATE_FRAME_DEVICE
  | TANGO_COORDINATE_FRAME_IMU
  | TANGO_COORDINATE_FRAME_DISPLAY
  | TANGO_COORDINATE_FRAME_CAMERA_COLOR
  | TANGO_COORDINATE_FRAME_CAMERA_DEPTH
  | TANGO_COORDINATE_FRAME_CAMERA_FISHEYE

datatype TangoPoseStatusType =
    TANGO_POSE_INITIALIZING
  | TANGO_POSE_VALID
  | TANGO_POSE_INVALID
  | TANGO_POSE_UNKNOWN

text \<open>
  \<^verbatim>\<open>TangoPoseData\<close>. The timestamp, the orientation quaternion and the translation are
  doubles that the application only copies; they are carried as their 64-bit patterns.
\<close>

record TangoPoseData =
  numbers :: "64 word list"
  status_code :: TangoPoseStatusType
  frame_base :: TangoCoordinateFrameType
  frame_target :: TangoCoordinateFrameType

datatype TangoEventType =
    TANGO_EVENT_UNKNOWN
  | TANGO_EVENT_GENERAL
  | TANGO_EVENT_FISHEYE_CAMERA
  | TANGO_EVENT_COLOR_CAMERA
  | TANGO_EVENT_IMU
  | TANGO_EVENT_FEATURE_TRACKING
  | TANGO_EVENT_AREA_LEARNING

text \<open>\<^verbatim>\<open>TangoEvent\<close>; the key and the value are C strings.\<close>

record TangoEvent =
  event_timestamp :: "64 word"
  event_type :: TangoEventType
  event_key :: string
  event_value :: string

section \<open>The tracking service as a parameter\<close>

text \<open>
  One field per library function the file calls. Each takes the service's own state
  \<open>'s\<close> and returns the return code, what it stores through each out-parameter, and the
  service's next state.
\<close>

record 's tango_service =
  on_saveAreaDescription :: "'s \<Rightarrow> (int \<times> string option) \<times> 's"
  on_getAreaDescriptionMetadata :: "string \<Rightarrow> 's \<Rightarrow> (int \<times> handle cvar option) \<times> 's"
  on_Metadata_get ::
    "handle cvar \<Rightarrow> string \<Rightarrow> 's \<Rightarrow> (int \<times> nat option \<times> string cvar option) \<times> 's"
  on_Metadata_set :: "handle cvar \<Rightarrow> string \<Rightarrow> nat \<Rightarrow> string \<Rightarrow> 's \<Rightarrow> int \<times> 's"
  on_saveAreaDescriptionMetadata :: "string \<Rightarrow> handle cvar \<Rightarrow> 's \<Rightarrow> int \<times> 's"
  on_getConfig :: "'s \<Rightarrow> handle cvar \<times> 's"
  on_getAreaDescriptionUUIDList :: "'s \<Rightarrow> (int \<times> string cvar option) \<times> 's"
  on_deleteAreaDescription :: "string \<Rightarrow> 's \<Rightarrow> int \<times> 's"

section \<open>What one call of the application does, step by step\<close>

datatype mutex = pose_mutex | tango_event_mutex

datatype api_call =
    SaveAreaDescription
  | GetAreaDescriptionMetadata string
  | Metadata_get "handle cvar" string
  | Metadata_set "handle cvar" string nat string
  | SaveAreaDescriptionMetadata string "handle cvar"
  | GetConfig
  | GetAreaDescriptionUUIDList
  | DeleteAreaDescription string

datatype member_call =
    UpdatePose_call
  | GetCurrentPoseData_call
  | IsRelocalized_call
  | ResetPoseData_call
  | UpdateTangoEvent_call
  | GetTangoEventString_call

text \<open>
  The steps a call of the application can be seen to take from outside: taking and
  giving back a mutex (\<^verbatim>\<open>std::lock_guard\<close>), entering a member function of
  \<^verbatim>\<open>pose_data_\<close> or \<^verbatim>\<open>tango_event_data_\<close>, calling the Tango library, calling the
  Java activity's \<^verbatim>\<open>updateSavingAdfProgress(int)\<close>, and calling the scene.
  \<^verbatim>\<open>LOGI\<close> and \<^verbatim>\<open>LOGE\<close> only write to the Android log and are left out.
\<close>

datatype action =
    Acquire mutex
  | Release mutex
  | Member member_call
  | Service api_call
  | UpdateSavingAdfProgress int
  | SceneRender "TangoPoseData option \<times> TangoPoseData option \<times> TangoPoseData option" bool
  | SceneFreeGLContent

section \<open>PoseData and TangoEventData\<close>

text \<open>
  Modelled from the spec: the class \<^verbatim>\<open>PoseData\<close> (\<^verbatim>\<open>pose_data_\<close>: \<^verbatim>\<open>UpdatePose\<close>,
  \<^verbatim>\<open>GetCurrentPoseData\<close>, \<^verbatim>\<open>IsRelocalized\<close>, \<^verbatim>\<open>ResetPoseData\<close>) is declared in
  \<^verbatim>\<open>tango-area-learning/pose_data.h\<close>, which is not among the sources. Sections 3 and
  4.1 of the spec: one latest sample per tracked relationship; the flag is true once a
  valid (area-description to device) pose has been observed; it never reverts within a
  session; the reset clears all samples and the flag.
\<close>

record PoseData =
  start_service_T_device_pose :: "TangoPoseData option"
  adf_T_device_pose :: "TangoPoseData option"
  adf_T_start_service_pose :: "TangoPoseData option"
  is_relocalized :: bool

text \<open>
  Modelled from the spec: a \<^verbatim>\<open>PoseData\<close> at the start of a session holds no sample and
  its flag is false; \<^verbatim>\<open>ResetPoseData\<close> clears all samples and the flag.
\<close>

definition PoseData_init :: PoseData where
  "PoseData_init =
     \<lparr>start_service_T_device_pose = None, adf_T_device_pose = None,
      adf_T_start_service_pose = None, is_relocalized = False\<rparr>"

definition ResetPoseData :: "PoseData \<Rightarrow> PoseData" where
  "ResetPoseData pd = PoseData_init"

text \<open>
  Modelled from the spec: \<^verbatim>\<open>UpdatePose\<close> overwrites the retained sample of the pose's
  (base, target) pair, ignores a pair that is not one of the three tracked, and sets the
  flag when an (area-description to device) pose carries valid status.
\<close>

definition UpdatePose :: "TangoPoseData \<Rightarrow> PoseData \<Rightarrow> PoseData" where
  "UpdatePose pose pd =
     (if frame_base pose = TANGO_COORDINATE_FRAME_START_OF_SERVICE \<and>
         frame_target pose = TANGO_COORDINATE_FRAME_DEVICE
      then pd\<lparr>start_service_T_device_pose := Some pose\<rparr>
      else if frame_base pose = TANGO_COORDINATE_FRAME_AREA_DESCRIPTION \<and>
              frame_target pose = TANGO_COORDINATE_FRAME_DEVICE
      then pd\<lparr>adf_T_device_pose := Some pose,
              is_relocalized := (is_relocalized pd \<or> status_code pose = TANGO_POSE_VALID)\<rparr>
      else if frame_base pose = TANGO_COORDINATE_FRAME_AREA_DESCRIPTION \<and>
              frame_target pose = TANGO_COORDINATE_FRAME_START_OF_SERVICE
      then pd\<lparr>adf_T_start_service_pose := Some pose\<rparr>
      else pd)"

text \<open>Modelled from the spec: \<^verbatim>\<open>PoseData::IsRelocalized\<close> returns the derived flag.\<close>

definition PoseData_IsRelocalized :: "PoseData \<Rightarrow> bool" where
  "PoseData_IsRelocalized pd = is_relocalized pd"

text \<open>
  Modelled from the spec: \<^verbatim>\<open>GetCurrentPoseData\<close> returns a value copy of the retained
  samples.
\<close>

definition GetCurrentPoseData ::
  "PoseData \<Rightarrow> TangoPoseData option \<times> TangoPoseData option \<times> TangoPoseData option" where
  "GetCurrentPoseData pd =
     (start_service_T_device_pose pd, adf_T_device_pose pd, adf_T_start_service_pose pd)"

text \<open>
  Modelled from the spec: the class \<^verbatim>\<open>TangoEventData\<close> (\<^verbatim>\<open>tango_event_data_\<close>) is not
  among the sources either. Section 4.2: \<^verbatim>\<open>UpdateTangoEvent\<close> overwrites the single
  retained event.
\<close>

type_synonym TangoEventData = "TangoEvent option"

definition UpdateTangoEvent :: "TangoEvent \<Rightarrow> TangoEventData \<Rightarrow> TangoEventData" where
  "UpdateTangoEvent event ed = Some event"

section \<open>The application object and its surroundings\<close>

text \<open>
  The members of \<^verbatim>\<open>AreaLearningApp\<close> that the modelled functions touch, the state of the
  tracking service, and the steps taken so far.
\<close>

record 's world =
  pose_data :: PoseData
  tango_event_data :: TangoEventData
  tango :: 's
  trace :: "action list"

definition step :: "action \<Rightarrow> 's world \<Rightarrow> 's world" where
  "step a w = w\<lparr>trace := trace w @ [a]\<rparr>"

text \<open>
  \<^verbatim>\<open>std::string::c_str()\<close> read as a C string by the callee: the characters before the
  first NUL.
\<close>

definition c_str :: "string \<Rightarrow> string" where
  "c_str s = takeWhile (\<lambda>c. c \<noteq> CHR 0x00) s"

subsection \<open>The library calls: each is recorded, then answered by the service\<close>

definition TangoService_saveAreaDescription ::
  "'s tango_service \<Rightarrow> string cvar \<Rightarrow> 's world \<Rightarrow> (int \<times> string cvar) \<times> 's world" where
  "TangoService_saveAreaDescription svc uuid w =
     (case on_saveAreaDescription svc (tango w) of
        ((ret, out), s) \<Rightarrow>
          ((ret, assign_out uuid (map_option Ptr out)),
           (step (Service SaveAreaDescription) w)\<lparr>tango := s\<rparr>))"

definition TangoService_getAreaDescriptionMetadata ::
  "'s tango_service \<Rightarrow> string \<Rightarrow> handle cvar \<Rightarrow> 's world \<Rightarrow> (int \<times> handle cvar) \<times> 's world" where
  "TangoService_getAreaDescriptionMetadata svc uuid metadata w =
     (case on_getAreaDescriptionMetadata svc uuid (tango w) of
        ((ret, out), s) \<Rightarrow>
          ((ret, assign_out metadata out),
           (step (Service (GetAreaDescriptionMetadata uuid)) w)\<lparr>tango := s\<rparr>))"

definition TangoAreaDescriptionMetadata_get ::
  "'s tango_service \<Rightarrow> handle cvar \<Rightarrow> string \<Rightarrow> nat \<Rightarrow> string cvar \<Rightarrow> 's world \<Rightarrow>
     (int \<times> nat \<times> string cvar) \<times> 's world" where
  "TangoAreaDescriptionMetadata_get svc metadata key size_var output w =
     (case on_Metadata_get svc metadata key (tango w) of
        ((ret, size_out, value_out), s) \<Rightarrow>
          ((ret, (case size_out of None \<Rightarrow> size_var | Some n \<Rightarrow> n), assign_out output value_out),
           (step (Service (Metadata_get metadata key)) w)\<lparr>tango := s\<rparr>))"

definition TangoAreaDescriptionMetadata_set ::
  "'s tango_service \<Rightarrow> handle cvar \<Rightarrow> string \<Rightarrow> nat \<Rightarrow> string \<Rightarrow> 's world \<Rightarrow>
     int \<times> 's world" where
  "TangoAreaDescriptionMetadata_set svc metadata key value_size val w =
     (case on_Metadata_set svc metadata key value_size val (tango w) of
        (ret, s) \<Rightarrow>
          (ret, (step (Service (Metadata_set metadata key value_size val)) w)\<lparr>tango := s\<rparr>))"

definition TangoService_saveAreaDescriptionMetadata ::
  "'s tango_service \<Rightarrow> string \<Rightarrow> handle cvar \<Rightarrow> 's world \<Rightarrow> int \<times> 's world" where
  "TangoService_saveAreaDescriptionMetadata svc uuid metadata w =
     (case on_saveAreaDescriptionMetadata svc uuid metadata (tango w) of
        (ret, s) \<Rightarrow>
          (ret, (step (Service (SaveAreaDescriptionMetadata uuid metadata)) w)\<lparr>tango := s\<rparr>))"

definition TangoService_getConfig :: "'s tango_service \<Rightarrow> 's world \<Rightarrow> handle cvar \<times> 's world" where
  "TangoService_getConfig svc w =
     (case on_getConfig svc (tango w) of
        (config, s) \<Rightarrow> (config, (step (Service GetConfig) w)\<lparr>tango := s\<rparr>))"

definition TangoService_getAreaDescriptionUUIDList ::
  "'s tango_service \<Rightarrow> string cvar \<Rightarrow> 's world \<Rightarrow> (int \<times> string cvar) \<times> 's world" where
  "TangoService_getAreaDescriptionUUIDList svc uuid_list w =
     (case on_getAreaDescriptionUUIDList svc (tango w) of
        ((ret, out), s) \<Rightarrow>
          ((ret, assign_out uuid_list out),
           (step (Service GetAreaDescriptionUUIDList) w)\<lparr>tango := s\<rparr>))"

definition TangoService_deleteAreaDescription ::
  "'s tango_service \<Rightarrow> string \<Rightarrow> 's world \<Rightarrow> int \<times> 's world" where
  "TangoService_deleteAreaDescription svc uuid w =
     (case on_deleteAreaDescription svc uuid (tango w) of
        (ret, s) \<Rightarrow> (ret, (step (Service (DeleteAreaDescription uuid)) w)\<lparr>tango := s\<rparr>))"

section \<open>The map operations of AreaLearningApp\<close>

text \<open>\<^verbatim>\<open>SaveAdf\<close> (lines 194 to 210). The flag is read without taking the pose mutex.\<close>

definition SaveAdf :: "'s tango_service \<Rightarrow> 's world \<Rightarrow> (fault + string) \<times> 's world" where
  "SaveAdf svc w0 =
     (let adf_uuid_string = [];
          w1 = step (Member IsRelocalized_call) w0
      in if \<not> PoseData_IsRelocalized (pose_data w1) then (Inr adf_uuid_string, w1)
         else
           (case TangoService_saveAreaDescription svc Indeterminate w1 of
              ((ret, uuid), w2) \<Rightarrow>
                if ret = TANGO_SUCCESS then (std_string uuid, w2)
                else (Inr adf_uuid_string, w2)))"

text \<open>
  \<^verbatim>\<open>GetAdfMetadataValue\<close> (lines 212 to 234). Neither return code leads to a return: both
  are only logged, and the string is built from \<^verbatim>\<open>output\<close> whatever happened.
\<close>

definition GetAdfMetadataValue ::
  "'s tango_service \<Rightarrow> string \<Rightarrow> string \<Rightarrow> 's world \<Rightarrow> (fault + string) \<times> 's world" where
  "GetAdfMetadataValue svc uuid key w0 =
     (case TangoService_getAreaDescriptionMetadata svc (c_str uuid) Indeterminate w0 of
        ((ret1, metadata), w1) \<Rightarrow>
          (case TangoAreaDescriptionMetadata_get svc metadata (c_str key) 0 Indeterminate w1 of
             ((ret2, size_var, output), w2) \<Rightarrow> (std_string output, w2)))"

text \<open>
  \<^verbatim>\<open>SetAdfMetadataValue\<close> (lines 236 to 256): three calls in a row, each code only logged.
  The value goes to the library as a pointer with \<^verbatim>\<open>value.size()\<close>, so all of it is passed.
\<close>

definition SetAdfMetadataValue ::
  "'s tango_service \<Rightarrow> string \<Rightarrow> string \<Rightarrow> string \<Rightarrow> 's world \<Rightarrow> 's world" where
  "SetAdfMetadataValue svc uuid key val w0 =
     (case TangoService_getAreaDescriptionMetadata svc (c_str uuid) Indeterminate w0 of
        ((ret1, metadata), w1) \<Rightarrow>
          (case TangoAreaDescriptionMetadata_set svc metadata (c_str key) (length val) val w1 of
             (ret2, w2) \<Rightarrow>
               (case TangoService_saveAreaDescriptionMetadata svc (c_str uuid) metadata w2 of
                  (ret3, w3) \<Rightarrow> w3)))"

text \<open>
  \<^verbatim>\<open>GetAllAdfUuids\<close> (lines 258 to 272). The configuration it fetches goes into a local
  that shadows the member and is not used again.
\<close>

definition GetAllAdfUuids :: "'s tango_service \<Rightarrow> 's world \<Rightarrow> (fault + string) \<times> 's world" where
  "GetAllAdfUuids svc w0 =
     (case TangoService_getConfig svc w0 of
        (tango_config, w1) \<Rightarrow>
          (case TangoService_getAreaDescriptionUUIDList svc Nullptr w1 of
             ((ret, uuid_list), w2) \<Rightarrow> (std_string uuid_list, w2)))"

text \<open>\<^verbatim>\<open>DeleteAdf\<close> (lines 274 to 276): the return code is dropped.\<close>

definition DeleteAdf :: "'s tango_service \<Rightarrow> string \<Rightarrow> 's world \<Rightarrow> 's world" where
  "DeleteAdf svc uuid w = snd (TangoService_deleteAreaDescription svc (c_str uuid) w)"

subsection \<open>GetAdfUuids and strtok_r\<close>

text \<open>
  \<^verbatim>\<open>strtok_r\<close> of the C library, on the text from the scan position on: it skips the
  delimiters in front, returns no token at the end of the text, and otherwise the
  characters up to the next delimiter, leaving the scan position behind that delimiter
  (or at the end).
\<close>

definition strtok_r :: "string \<Rightarrow> string \<Rightarrow> string option \<times> string" where
  "strtok_r str delim =
     (let s = dropWhile (\<lambda>c. c \<in> set delim) str
      in if s = [] then (None, s)
         else
           (let token = takeWhile (\<lambda>c. c \<notin> set delim) s;
                rest = dropWhile (\<lambda>c. c \<notin> set delim) s
            in (Some token, if rest = [] then rest else tl rest)))"

text \<open>A token found leaves strictly less text to scan.\<close>

lemma strtok_r_shorter:
  assumes "strtok_r str delim = (Some token, saved)"
  shows "length saved < length str"
proof -
  define s where "s = dropWhile (\<lambda>c. c \<in> set delim) str"
  define rest where "rest = dropWhile (\<lambda>c. c \<notin> set delim) s"
  have unf: "strtok_r str delim =
      (if s = [] then (None, s)
       else (Some (takeWhile (\<lambda>c. c \<notin> set delim) s), if rest = [] then rest else tl rest))"
    unfolding strtok_r_def s_def rest_def Let_def by (rule refl)
  from assms unf have ne: "s \<noteq> []"
    by (cases "s = []") simp_all
  from ne assms unf have sn: "saved = (if rest = [] then rest else tl rest)"
    by simp
  from ne have h: "\<not> (hd s \<in> set delim)"
    unfolding s_def by (rule hd_dropWhile)
  from ne obtain a t where st: "s = a # t" by (cases s) auto
  with h have "rest = dropWhile (\<lambda>c. c \<notin> set delim) t"
    by (simp add: rest_def)
  then have "length rest \<le> length t"
    by (simp add: length_dropWhile_le)
  with st have "length rest < length s" by simp
  moreover have "length s \<le> length str"
    unfolding s_def by (rule length_dropWhile_le)
  moreover have "length saved \<le> length rest"
    by (simp add: sn)
  ultimately show ?thesis
    by linarith
qed

text \<open>The \<^verbatim>\<open>while (parsing_char != nullptr)\<close> loop of lines 354 to 358.\<close>

function GetAdfUuids_loop :: "string option \<Rightarrow> string \<Rightarrow> string list \<Rightarrow> string list" where
  "GetAdfUuids_loop parsing_char saved_ptr adf_list =
     (case parsing_char of
        None \<Rightarrow> adf_list
      | Some str \<Rightarrow>
          (case strtok_r saved_ptr '','' of
             (next_token, saved_next) \<Rightarrow>
               GetAdfUuids_loop next_token saved_next (adf_list @ [str])))"
  by pat_completeness auto
termination
  apply (relation "measure (\<lambda>(parsing_char, saved_ptr, adf_list).
         case parsing_char of None \<Rightarrow> 0 | Some t \<Rightarrow> Suc (length saved_ptr))")
   apply simp
  apply (auto split: option.splits dest: strtok_r_shorter [OF sym])
  done

text \<open>
  \<^verbatim>\<open>GetAdfUuids\<close> (lines 339 to 361): the tokens are pushed onto the caller's vector. The
  list pointer starts as \<^verbatim>\<open>nullptr\<close>; the text is parsed when the pointer is not null and
  the text is not empty.
\<close>

definition GetAdfUuids ::
  "'s tango_service \<Rightarrow> string list \<Rightarrow> 's world \<Rightarrow> (fault + string list) \<times> 's world" where
  "GetAdfUuids svc adf_list w0 =
     (case TangoService_getAreaDescriptionUUIDList svc Nullptr w0 of
        ((ret, uuid_list), w1) \<Rightarrow>
          (case uuid_list of
             Nullptr \<Rightarrow> (Inr adf_list, w1)
           | Indeterminate \<Rightarrow> (Inl IndeterminateString, w1)
           | Ptr text \<Rightarrow>
               if text \<noteq> [] then
                 (case strtok_r text '','' of
                    (parsing_char, saved_ptr) \<Rightarrow>
                      (Inr (GetAdfUuids_loop parsing_char saved_ptr adf_list), w1))
               else (Inr adf_list, w1)))"

section \<open>Doubles, atof and the conversion to int\<close>

text \<open>
  Line 63 computes \<^verbatim>\<open>std::atof(event->event_value) * 100\<close> in binary64 and passes it to a
  function taking \<^verbatim>\<open>int\<close>. The arithmetic is written out on integers: \<open>Finite m e\<close> is
  the double of value \<open>m * 2 ^ e\<close>. The sign of a zero is not kept; no modelled step
  depends on it.
\<close>

datatype double = Finite int int | PosInf | NegInf | NaN

text \<open>The ratio \<open>p / q\<close> (\<open>0 \<le> p\<close>, \<open>0 < q\<close>) rounded to the nearest integer, ties to even.\<close>

definition nearest_even :: "int \<Rightarrow> int \<Rightarrow> int" where
  "nearest_even p q =
     (let n = p div q; r = p mod q
      in if 2 * r < q then n else if q < 2 * r then n + 1 else if even n then n else n + 1)"

text \<open>
  The binary exponent of \<open>p / q\<close> (\<open>0 < p\<close>, \<open>0 < q\<close>): the \<open>e\<close> with
  \<open>2 ^ e \<le> p / q < 2 ^ (e + 1)\<close>, found from the bit lengths and one comparison.
\<close>

definition binade :: "int \<Rightarrow> int \<Rightarrow> int" where
  "binade p q =
     (let a = bitlen p - bitlen q
      in if (if 0 \<le> a then 2 ^ nat a * q \<le> p else q \<le> 2 ^ nat (- a) * p) then a else a - 1)"

text \<open>
  IEEE 754 round-to-nearest-even of the magnitude \<open>p / q\<close> with the given sign to
  binary64: 53 significant bits in the normal range, multiples of \<open>2 ^ - 1074\<close> below
  \<open>2 ^ - 1022\<close>, and an infinity when the rounded value reaches \<open>2 ^ 1024\<close>.
\<close>

definition to_double :: "bool \<Rightarrow> int \<Rightarrow> int \<Rightarrow> double" where
  "to_double neg p q =
     (if p = 0 then Finite 0 0
      else
        (let e = max (binade p q) (- 1022);
             m = (if e \<le> 52 then nearest_even (p * 2 ^ nat (52 - e)) q
                  else nearest_even p (q * 2 ^ nat (e - 52)))
         in if 1023 < e \<or> (e = 1023 \<and> 2 ^ 53 \<le> m) then (if neg then NegInf else PosInf)
            else Finite (if neg then - m else m) (e - 52)))"

text \<open>The binary64 product: the exact product of two finite operands, rounded once.\<close>

definition double_mult :: "double \<Rightarrow> double \<Rightarrow> double" where
  "double_mult x y =
     (case (x, y) of
        (NaN, _) \<Rightarrow> NaN
      | (_, NaN) \<Rightarrow> NaN
      | (Finite m1 e1, Finite m2 e2) \<Rightarrow>
          (let m = m1 * m2; e = e1 + e2
           in if 0 \<le> e then to_double (m < 0) (\<bar>m\<bar> * 2 ^ nat e) 1
              else to_double (m < 0) \<bar>m\<bar> (2 ^ nat (- e)))
      | (Finite m e, PosInf) \<Rightarrow> (if m = 0 then NaN else if m < 0 then NegInf else PosInf)
      | (Finite m e, NegInf) \<Rightarrow> (if m = 0 then NaN else if m < 0 then PosInf else NegInf)
      | (PosInf, Finite m e) \<Rightarrow> (if m = 0 then NaN else if m < 0 then NegInf else PosInf)
      | (NegInf, Finite m e) \<Rightarrow> (if m = 0 then NaN else if m < 0 then PosInf else NegInf)
      | (PosInf, PosInf) \<Rightarrow> PosInf
      | (NegInf, NegInf) \<Rightarrow> PosInf
      | (PosInf, NegInf) \<Rightarrow> NegInf
      | (NegInf, PosInf) \<Rightarrow> NegInf)"

text \<open>
  \<^verbatim>\<open>std::atof\<close> belongs to the C library. It is written after the C standard's
  \<^verbatim>\<open>strtod\<close> in the C locale: white space is skipped, then an optional sign, then the
  longest of a hexadecimal form (\<^verbatim>\<open>0x\<close>, hexadecimal digits with an optional point, an
  optional \<^verbatim>\<open>p\<close> exponent), a decimal form (digits with an optional point, an optional
  \<^verbatim>\<open>e\<close> exponent), \<^verbatim>\<open>inf\<close> or \<^verbatim>\<open>nan\<close>; the value is correctly rounded; a text with
  none of these forms converts to zero.
\<close>

definition isspace :: "char \<Rightarrow> bool" where
  "isspace c = (c \<in> set [CHR 0x20, CHR 0x09, CHR 0x0A, CHR 0x0B, CHR 0x0C, CHR 0x0D])"

definition isdigit :: "char \<Rightarrow> bool" where
  "isdigit c = (48 \<le> (of_char c :: nat) \<and> (of_char c :: nat) \<le> 57)"

definition isxdigit :: "char \<Rightarrow> bool" where
  "isxdigit c =
     (isdigit c \<or> (65 \<le> (of_char c :: nat) \<and> (of_char c :: nat) \<le> 70)
        \<or> (97 \<le> (of_char c :: nat) \<and> (of_char c :: nat) \<le> 102))"

definition tolower :: "char \<Rightarrow> char" where
  "tolower c =
     (if 65 \<le> (of_char c :: nat) \<and> (of_char c :: nat) \<le> 90 then char_of (of_char c + (32 :: nat))
      else c)"

text \<open>The value of a decimal or hexadecimal digit, and of a digit string in a base.\<close>

definition digit_value :: "char \<Rightarrow> int" where
  "digit_value c =
     (if isdigit c then int (of_char c) - 48
      else if 97 \<le> (of_char c :: nat) then int (of_char c) - 87
      else int (of_char c) - 55)"

definition digits_value :: "int \<Rightarrow> string \<Rightarrow> int" where
  "digits_value base ds = foldl (\<lambda>a c. base * a + digit_value c) 0 ds"

text \<open>An optional sign in front: whether it is a minus, and the text behind it.\<close>

definition split_sign :: "string \<Rightarrow> bool \<times> string" where
  "split_sign s =
     (case s of
        [] \<Rightarrow> (False, s)
      | c # r \<Rightarrow> if c = CHR ''-'' then (True, r) else if c = CHR ''+'' then (False, r) else (False, s))"

text \<open>
  The exponent that follows the digits: the marker (\<^verbatim>\<open>e\<close> or \<^verbatim>\<open>p\<close>, either case), an
  optional sign and at least one decimal digit; 0 when there is no such part.
\<close>

definition exponent_part :: "char \<Rightarrow> string \<Rightarrow> int" where
  "exponent_part mark s =
     (case s of
        [] \<Rightarrow> 0
      | c # r \<Rightarrow>
          if tolower c = mark then
            (case split_sign r of
               (neg, t) \<Rightarrow>
                 (let ds = takeWhile isdigit t; v = digits_value 10 ds
                  in if ds = [] then 0 else if neg then - v else v))
          else 0)"

text \<open>The double nearest to \<open>n * base ^ k\<close> with the given sign.\<close>

definition scaled :: "bool \<Rightarrow> int \<Rightarrow> int \<Rightarrow> int \<Rightarrow> double" where
  "scaled neg n base k =
     (if 0 \<le> k then to_double neg (n * base ^ nat k) 1 else to_double neg n (base ^ nat (- k)))"

text \<open>
  The decimal form: integer digits, an optional point with fraction digits, at least one
  digit in all, then the optional exponent. \<open>None\<close> when the text does not start with it.
\<close>

definition decimal_subject :: "bool \<Rightarrow> string \<Rightarrow> double option" where
  "decimal_subject neg s =
     (let ip = takeWhile isdigit s; r1 = dropWhile isdigit s;
          fp = (case r1 of [] \<Rightarrow> [] | c # t \<Rightarrow> if c = CHR ''.'' then takeWhile isdigit t else []);
          r2 = (case r1 of [] \<Rightarrow> [] | c # t \<Rightarrow> if c = CHR ''.'' then dropWhile isdigit t else r1)
      in if ip = [] \<and> fp = [] then None
         else Some (scaled neg (digits_value 10 (ip @ fp)) 10
                      (exponent_part (CHR ''e'') r2 - int (length fp))))"

text \<open>The hexadecimal form; each fraction digit counts for four binary places.\<close>

definition hex_subject :: "bool \<Rightarrow> string \<Rightarrow> double option" where
  "hex_subject neg s =
     (if map tolower (take 2 s) = ''0x'' then
        (let h = drop 2 s; ip = takeWhile isxdigit h; r1 = dropWhile isxdigit h;
             fp = (case r1 of [] \<Rightarrow> [] | c # t \<Rightarrow> if c = CHR ''.'' then takeWhile isxdigit t else []);
             r2 = (case r1 of [] \<Rightarrow> [] | c # t \<Rightarrow> if c = CHR ''.'' then dropWhile isxdigit t else r1)
         in if ip = [] \<and> fp = [] then None
            else Some (scaled neg (digits_value 16 (ip @ fp)) 2
                         (exponent_part (CHR ''p'') r2 - 4 * int (length fp))))
      else None)"

definition atof :: "string \<Rightarrow> double" where
  "atof nptr =
     (case split_sign (dropWhile isspace nptr) of
        (neg, s) \<Rightarrow>
          (case hex_subject neg s of
             Some d \<Rightarrow> d
           | None \<Rightarrow>
               (case decimal_subject neg s of
                  Some d \<Rightarrow> d
                | None \<Rightarrow>
                    if map tolower (take 3 s) = ''inf'' then (if neg then NegInf else PosInf)
                    else if map tolower (take 3 s) = ''nan'' then NaN
                    else Finite 0 0)))"

text \<open>
  The implicit conversion of the \<^verbatim>\<open>double\<close> argument to the \<^verbatim>\<open>int\<close> parameter of
  \<^verbatim>\<open>OnAdfSavingProgressChanged\<close>: the fraction is discarded (truncation toward zero);
  the behaviour is undefined when the truncated value does not fit a 32-bit \<^verbatim>\<open>int\<close>, and
  for an infinity or a NaN.
\<close>

definition double_to_int :: "double \<Rightarrow> fault + int" where
  "double_to_int d =
     (case d of
        Finite m e \<Rightarrow>
          (let t = (if 0 \<le> e then m * 2 ^ nat e
                    else if 0 \<le> m then m div 2 ^ nat (- e)
                    else - ((- m) div 2 ^ nat (- e)))
           in if - (2 ^ 31) \<le> t \<and> t < 2 ^ 31 then Inr t else Inl DoubleToIntOutOfRange)
      | _ \<Rightarrow> Inl DoubleToIntOutOfRange)"

section \<open>Session ingestion and the render path\<close>

text \<open>\<^verbatim>\<open>onPoseAvailable\<close> (lines 52 to 55).\<close>

definition onPoseAvailable :: "TangoPoseData \<Rightarrow> 's world \<Rightarrow> 's world" where
  "onPoseAvailable pose w0 =
     (let w1 = step (Acquire pose_mutex) w0;
          w2 = (step (Member UpdatePose_call) w1)\<lparr>pose_data := UpdatePose pose (pose_data w1)\<rparr>
      in step (Release pose_mutex) w2)"

text \<open>\<^verbatim>\<open>OnAdfSavingProgressChanged\<close> (lines 376 to 383): the call into the Java activity.\<close>

definition OnAdfSavingProgressChanged :: "int \<Rightarrow> 's world \<Rightarrow> 's world" where
  "OnAdfSavingProgressChanged progress w = step (UpdateSavingAdfProgress progress) w"

text \<open>
  \<^verbatim>\<open>onTangoEventAvailable\<close> (lines 57 to 65). The \<^verbatim>\<open>lock_guard\<close> lives to the end of the
  function body, so the mutex is given back after the \<^verbatim>\<open>if\<close> statement.
\<close>

definition onTangoEventAvailable :: "TangoEvent \<Rightarrow> 's world \<Rightarrow> (fault + unit) \<times> 's world" where
  "onTangoEventAvailable event w0 =
     (let w1 = step (Acquire tango_event_mutex) w0;
          w2 = (step (Member UpdateTangoEvent_call) w1)
                 \<lparr>tango_event_data := UpdateTangoEvent event (tango_event_data w1)\<rparr>
      in if event_type event = TANGO_EVENT_AREA_LEARNING \<and>
            event_key event = ''AreaDescriptionSaveProgress''
         then
           (case double_to_int (double_mult (atof (event_value event)) (Finite 100 0)) of
              Inl f \<Rightarrow> (Inl f, w2)
            | Inr progress \<Rightarrow>
                (Inr (), step (Release tango_event_mutex) (OnAdfSavingProgressChanged progress w2)))
         else (Inr (), step (Release tango_event_mutex) w2))"

text \<open>
  \<^verbatim>\<open>Render\<close> (lines 284 to 292): the braces end the \<^verbatim>\<open>lock_guard\<close> before line 291, where
  the flag is read as an argument of the scene's \<^verbatim>\<open>Render\<close>.
\<close>

definition Render :: "'s world \<Rightarrow> 's world" where
  "Render w0 =
     (let w1 = step (Acquire pose_mutex) w0;
          w2 = step (Member GetCurrentPoseData_call) w1;
          cur_pose = GetCurrentPoseData (pose_data w2);
          w3 = step (Release pose_mutex) w2;
          w4 = step (Member IsRelocalized_call) w3;
          flag = PoseData_IsRelocalized (pose_data w4)
      in step (SceneRender cur_pose flag) w4)"

text \<open>\<^verbatim>\<open>FreeContent\<close> (lines 294 to 297).\<close>

definition FreeContent :: "'s world \<Rightarrow> 's world" where
  "FreeContent w0 =
     (let w1 = (step (Member ResetPoseData_call) w0)\<lparr>pose_data := ResetPoseData (pose_data w0)\<rparr>
      in step SceneFreeGLContent w1)"

text \<open>\<^verbatim>\<open>AreaLearningApp::IsRelocalized\<close> (lines 299 to 302).\<close>

definition IsRelocalized :: "'s world \<Rightarrow> bool \<times> 's world" where
  "IsRelocalized w0 =
     (let w1 = step (Acquire pose_mutex) w0;
          w2 = step (Member IsRelocalized_call) w1;
          flag = PoseData_IsRelocalized (pose_data w2)
      in (flag, step (Release pose_mutex) w2))"

section \<open>Reading a trace\<close>

text \<open>How many times a trace calls the store's save primitive.\<close>

definition save_calls :: "action list \<Rightarrow> nat" where
  "save_calls tr = length (filter (\<lambda>a. a = Service SaveAreaDescription) tr)"

text \<open>The library calls of a trace, in order.\<close>

fun service_calls :: "action list \<Rightarrow> api_call list" where
  "service_calls [] = []"
| "service_calls (Service c # tr) = c # service_calls tr"
| "service_calls (a # tr) = service_calls tr"

text \<open>The percentages a trace reports to the Java activity, in order.\<close>

fun reports :: "action list \<Rightarrow> int list" where
  "reports [] = []"
| "reports (UpdateSavingAdfProgress p # tr) = p # reports tr"
| "reports (a # tr) = reports tr"

text \<open>Each step of a trace with the mutexes held when it is taken.\<close>

fun annotate :: "mutex list \<Rightarrow> action list \<Rightarrow> (mutex list \<times> action) list" where
  "annotate held [] = []"
| "annotate held (Acquire m # tr) = (held, Acquire m) # annotate (m # held) tr"
| "annotate held (Release m # tr) = (held, Release m) # annotate (remove1 m held) tr"
| "annotate held (a # tr) = (held, a) # annotate held tr"

text \<open>The mutexes still held at the end of a trace.\<close>

fun held_after :: "mutex list \<Rightarrow> action list \<Rightarrow> mutex list" where
  "held_after held [] = held"
| "held_after held (Acquire m # tr) = held_after (m # held) tr"
| "held_after held (Release m # tr) = held_after (remove1 m held) tr"
| "held_after held (a # tr) = held_after held tr"

text \<open>What a call added to the trace of the world it started in.\<close>

definition added :: "'s world \<Rightarrow> 's world \<Rightarrow> action list" where
  "added w w' = drop (length (trace w)) (trace w')"

section \<open>Services and sessions to run the model on\<close>

text \<open>A service whose every call fails and stores nothing through its out-parameters.\<close>

definition failing_service :: "unit tango_service" where
  "failing_service =
     \<lparr>on_saveAreaDescription = (\<lambda>s. ((TANGO_ERROR, None), s)),
      on_getAreaDescriptionMetadata = (\<lambda>uuid s. ((TANGO_ERROR, None), s)),
      on_Metadata_get = (\<lambda>h key s. ((TANGO_ERROR, None, None), s)),
      on_Metadata_set = (\<lambda>h key n v s. (TANGO_ERROR, s)),
      on_saveAreaDescriptionMetadata = (\<lambda>uuid h s. (TANGO_ERROR, s)),
      on_getConfig = (\<lambda>s. (Nullptr, s)),
      on_getAreaDescriptionUUIDList = (\<lambda>s. ((TANGO_ERROR, None), s)),
      on_deleteAreaDescription = (\<lambda>uuid s. (TANGO_ERROR, s))\<rparr>"

text \<open>The same service, except that saving succeeds and issues the given UUID.\<close>

definition saving_service :: "string \<Rightarrow> unit tango_service" where
  "saving_service u =
     failing_service\<lparr>on_saveAreaDescription := (\<lambda>s. ((TANGO_SUCCESS, Some u), s))\<rparr>"

text \<open>The same service, except that listing succeeds and returns the given text.\<close>

definition listing_service :: "string \<Rightarrow> unit tango_service" where
  "listing_service blob =
     failing_service
       \<lparr>on_getAreaDescriptionUUIDList := (\<lambda>s. ((TANGO_SUCCESS, Some (Ptr blob)), s))\<rparr>"

text \<open>A session with nothing stored yet and the given relocalization flag.\<close>

definition session :: "bool \<Rightarrow> unit world" where
  "session r =
     \<lparr>pose_data = PoseData_init\<lparr>is_relocalized := r\<rparr>, tango_event_data = None,
      tango = (), trace = []\<rparr>"

definition area_learning_event :: "string \<Rightarrow> string \<Rightarrow> TangoEvent" where
  "area_learning_event k v =
     \<lparr>event_timestamp = 0, event_type = TANGO_EVENT_AREA_LEARNING, event_key = k,
      event_value = v\<rparr>"

definition adf_device_pose :: "TangoPoseStatusType \<Rightarrow> TangoPoseData" where
  "adf_device_pose st =
     \<lparr>numbers = [], status_code = st, frame_base = TANGO_COORDINATE_FRAME_AREA_DESCRIPTION,
      frame_target = TANGO_COORDINATE_FRAME_DEVICE\<rparr>"

section \<open>The listing as the specification words it\<close>

text \<open>
  Section 4.4 of the spec, \<^verbatim>\<open>ListUuids\<close>: the text is split strictly at each comma and
  the empty pieces are discarded. \<open>split_on\<close> cuts at every separator (so \<open>n\<close>
  separators give \<open>n + 1\<close> pieces, empty ones included); \<open>ListUuids_tokens\<close> keeps the
  non-empty pieces in their order.
\<close>

fun split_on :: "char \<Rightarrow> string \<Rightarrow> string list" where
  "split_on sep [] = [[]]"
| "split_on sep (c # cs) =
     (if c = sep then [] # split_on sep cs
      else (c # hd (split_on sep cs)) # tl (split_on sep cs))"

definition ListUuids_tokens :: "string \<Rightarrow> string list" where
  "ListUuids_tokens blob = filter (\<lambda>t. t \<noteq> []) (split_on (CHR '','') blob)"

section \<open>A session as a sequence of calls\<close>

text \<open>
  The calls the host and the tracking service make on the application object, and the
  world each leaves behind. A call that faults leaves the world it had reached.
\<close>

datatype app_call =
    Call_onPoseAvailable TangoPoseData
  | Call_onTangoEventAvailable TangoEvent
  | Call_SaveAdf
  | Call_GetAdfMetadataValue string string
  | Call_SetAdfMetadataValue string string string
  | Call_GetAllAdfUuids
  | Call_GetAdfUuids "string list"
  | Call_DeleteAdf string
  | Call_Render
  | Call_IsRelocalized
  | Call_FreeContent

fun perform :: "'s tango_service \<Rightarrow> app_call \<Rightarrow> 's world \<Rightarrow> 's world" where
  "perform svc (Call_onPoseAvailable pose) w = onPoseAvailable pose w"
| "perform svc (Call_onTangoEventAvailable event) w = snd (onTangoEventAvailable event w)"
| "perform svc Call_SaveAdf w = snd (SaveAdf svc w)"
| "perform svc (Call_GetAdfMetadataValue uuid key) w = snd (GetAdfMetadataValue svc uuid key w)"
| "perform svc (Call_SetAdfMetadataValue uuid key val) w = SetAdfMetadataValue svc uuid key val w"
| "perform svc Call_GetAllAdfUuids w = snd (GetAllAdfUuids svc w)"
| "perform svc (Call_GetAdfUuids adf_list) w = snd (GetAdfUuids svc adf_list w)"
| "perform svc (Call_DeleteAdf uuid) w = DeleteAdf svc uuid w"
| "perform svc Call_Render w = Render w"
| "perform svc Call_IsRelocalized w = snd (IsRelocalized w)"
| "perform svc Call_FreeContent w = FreeContent w"

definition run :: "'s tango_service \<Rightarrow> app_call list \<Rightarrow> 's world \<Rightarrow> 's world" where
  "run svc calls w = foldl (\<lambda>w' c. perform svc c w') w calls"

text \<open>A pose notification for (area description to device) that carries valid status.\<close>

fun relocalizing :: "app_call \<Rightarrow> bool" where
  "relocalizing (Call_onPoseAvailable pose) =
     (frame_base pose = TANGO_COORDINATE_FRAME_AREA_DESCRIPTION \<and>
      frame_target pose = TANGO_COORDINATE_FRAME_DEVICE \<and>
      status_code pose = TANGO_POSE_VALID)"
| "relocalizing c = False"

section \<open>The value of a double\<close>

text \<open>The rational number a finite double stands for.\<close>

definition double_value :: "double \<Rightarrow> rat" where
  "double_value d =
     (case d of
        Finite m e \<Rightarrow> of_int m * (if 0 \<le> e then 2 ^ nat e else 1 / 2 ^ nat (- e))
      | _ \<Rightarrow> 0)"

section \<open>Lock discipline read off a trace\<close>

text \<open>Every progress report of the trace is made while the event mutex is not held.\<close>

definition report_after_release :: "action list \<Rightarrow> bool" where
  "report_after_release tr =
     list_all (\<lambda>(held, a). case a of
                 UpdateSavingAdfProgress p \<Rightarrow> tango_event_mutex \<notin> set held
               | _ \<Rightarrow> True)
       (annotate [] tr)"

text \<open>Every progress report of the trace is made while the event mutex is held.\<close>

definition report_under_lock :: "action list \<Rightarrow> bool" where
  "report_under_lock tr =
     list_all (\<lambda>(held, a). case a of
                 UpdateSavingAdfProgress p \<Rightarrow> tango_event_mutex \<in> set held
               | _ \<Rightarrow> True)
       (annotate [] tr)"

text \<open>Every read of the relocalization flag in the trace is made while the pose mutex is held.\<close>

definition flag_read_under_pose_lock :: "action list \<Rightarrow> bool" where
  "flag_read_under_pose_lock tr =
     list_all (\<lambda>(held, a). case a of
                 Member IsRelocalized_call \<Rightarrow> pose_mutex \<in> set held
               | _ \<Rightarrow> True)
       (annotate [] tr)"

text \<open>Every percentage the trace reports lies in [0, 100].\<close>

definition reports_within_percent_range :: "action list \<Rightarrow> bool" where
  "reports_within_percent_range tr = list_all (\<lambda>p. 0 \<le> p \<and> p \<le> 100) (reports tr)"

section \<open>Saving an area description\<close>

lemma SaveAdf_not_relocalized:
  "\<not> PoseData_IsRelocalized (pose_data w) \<Longrightarrow>
     SaveAdf svc w = (Inr [], step (Member IsRelocalized_call) w)"
  by (simp add: SaveAdf_def step_def)

lemma SaveAdf_relocalized:
  "PoseData_IsRelocalized (pose_data w) \<Longrightarrow>
   on_saveAreaDescription svc (tango w) = ((ret, out), s) \<Longrightarrow>
     SaveAdf svc w =
       (if ret = TANGO_SUCCESS then std_string (assign_out Indeterminate (map_option Ptr out))
        else Inr [],
        w\<lparr>tango := s,
           trace := trace w @ [Member IsRelocalized_call, Service SaveAreaDescription]\<rparr>)"
  by (simp add: SaveAdf_def step_def TangoService_saveAreaDescription_def)

lemma SaveAdf_saving_service:
  "SaveAdf (saving_service u) (session True) =
     (Inr u, (session True)\<lparr>trace := [Member IsRelocalized_call, Service SaveAreaDescription]\<rparr>)"
  by (simp add: SaveAdf_def step_def TangoService_saveAreaDescription_def saving_service_def
      failing_service_def session_def PoseData_IsRelocalized_def PoseData_init_def
      assign_out_def std_string_def)

lemma session_flag: "PoseData_IsRelocalized (pose_data (session r)) = r"
  by (simp add: session_def PoseData_IsRelocalized_def PoseData_init_def)

text \<open>
  Claim C1. In every session state where the relocalization flag is false, \<^verbatim>\<open>SaveAdf\<close>
  returns its failure result (the empty string) at once: it makes no library call, so the
  store's save primitive is not invoked and the service's state is untouched. Where the
  flag is true it calls \<^verbatim>\<open>TangoService_saveAreaDescription\<close> exactly once; when that
  call reports success and issues a UUID, the UUID is returned, and when it reports an
  error the failure result is returned.
\<close>

theorem SaveAdf_guard_then_one_store_call:
  "(\<not> PoseData_IsRelocalized (pose_data w) \<longrightarrow>
      fst (SaveAdf svc w) = Inr [] \<and>
      service_calls (added w (snd (SaveAdf svc w))) = [] \<and>
      save_calls (trace (snd (SaveAdf svc w))) = save_calls (trace w) \<and>
      tango (snd (SaveAdf svc w)) = tango w) \<and>
   (PoseData_IsRelocalized (pose_data w) \<longrightarrow>
      service_calls (added w (snd (SaveAdf svc w))) = [SaveAreaDescription] \<and>
      save_calls (trace (snd (SaveAdf svc w))) = save_calls (trace w) + 1 \<and>
      (\<forall>ret out s. on_saveAreaDescription svc (tango w) = ((ret, out), s) \<longrightarrow>
         tango (snd (SaveAdf svc w)) = s \<and>
         (\<forall>u. ret = TANGO_SUCCESS \<and> out = Some u \<longrightarrow> fst (SaveAdf svc w) = Inr u) \<and>
         (ret \<noteq> TANGO_SUCCESS \<longrightarrow> fst (SaveAdf svc w) = Inr [])))"
proof (intro conjI impI allI)
  assume n: "\<not> PoseData_IsRelocalized (pose_data w)"
  note e = SaveAdf_not_relocalized [OF n, of svc]
  show "fst (SaveAdf svc w) = Inr []" by (simp add: e)
  show "service_calls (added w (snd (SaveAdf svc w))) = []"
    by (simp add: e step_def added_def)
  show "save_calls (trace (snd (SaveAdf svc w))) = save_calls (trace w)"
    by (simp add: e step_def save_calls_def)
  show "tango (snd (SaveAdf svc w)) = tango w" by (simp add: e step_def)
next
  assume r: "PoseData_IsRelocalized (pose_data w)"
  obtain ret out s where o: "on_saveAreaDescription svc (tango w) = ((ret, out), s)"
    by (metis surj_pair)
  note e = SaveAdf_relocalized [OF r o]
  show "service_calls (added w (snd (SaveAdf svc w))) = [SaveAreaDescription]"
    by (simp add: e added_def)
  show "save_calls (trace (snd (SaveAdf svc w))) = save_calls (trace w) + 1"
    by (simp add: e save_calls_def)
next
  fix ret out s
  assume r: "PoseData_IsRelocalized (pose_data w)"
    and o: "on_saveAreaDescription svc (tango w) = ((ret, out), s)"
  show "tango (snd (SaveAdf svc w)) = s"
    by (simp add: SaveAdf_relocalized [OF r o])
next
  fix ret out s u
  assume r: "PoseData_IsRelocalized (pose_data w)"
    and o: "on_saveAreaDescription svc (tango w) = ((ret, out), s)"
    and ok: "ret = TANGO_SUCCESS \<and> out = Some u"
  show "fst (SaveAdf svc w) = Inr u"
    using ok by (simp add: SaveAdf_relocalized [OF r o] std_string_def assign_out_def)
next
  fix ret out s
  assume r: "PoseData_IsRelocalized (pose_data w)"
    and o: "on_saveAreaDescription svc (tango w) = ((ret, out), s)"
    and bad: "ret \<noteq> TANGO_SUCCESS"
  show "fst (SaveAdf svc w) = Inr []"
    using bad by (simp add: SaveAdf_relocalized [OF r o])
qed

theorem SaveAdf_guard_then_one_store_call_witness:
  "fst (SaveAdf (saving_service ''adf-1'') (session False)) = Inr [] \<and>
   service_calls (added (session False) (snd (SaveAdf (saving_service ''adf-1'') (session False)))) = [] \<and>
   save_calls (trace (snd (SaveAdf (saving_service ''adf-1'') (session False)))) = 0 \<and>
   service_calls (added (session True) (snd (SaveAdf (saving_service ''adf-1'') (session True))))
     = [SaveAreaDescription] \<and>
   save_calls (trace (snd (SaveAdf (saving_service ''adf-1'') (session True)))) = 1 \<and>
   fst (SaveAdf (saving_service ''adf-1'') (session True)) = Inr ''adf-1'' \<and>
   fst (SaveAdf failing_service (session True)) = Inr []"
proof -
  have off: "\<not> PoseData_IsRelocalized (pose_data (session False))"
    by (simp add: session_flag)
  have on: "PoseData_IsRelocalized (pose_data (session True))"
    by (simp add: session_flag)
  have good: "on_saveAreaDescription (saving_service ''adf-1'') (tango (session True))
      = ((TANGO_SUCCESS, Some ''adf-1''), ())"
    by (simp add: saving_service_def failing_service_def)
  have bad: "on_saveAreaDescription failing_service (tango (session True))
      = ((TANGO_ERROR, None), ())"
    by (simp add: failing_service_def)
  have ne: "TANGO_ERROR \<noteq> TANGO_SUCCESS"
    by (simp add: TANGO_ERROR_def TANGO_SUCCESS_def)
  have t0: "save_calls (trace (session False)) = 0" "save_calls (trace (session True)) = 0"
    by (simp_all add: session_def save_calls_def)
  from SaveAdf_guard_then_one_store_call [of "session False" "saving_service ''adf-1''"] off t0
  have a: "fst (SaveAdf (saving_service ''adf-1'') (session False)) = Inr [] \<and>
      service_calls (added (session False) (snd (SaveAdf (saving_service ''adf-1'') (session False)))) = [] \<and>
      save_calls (trace (snd (SaveAdf (saving_service ''adf-1'') (session False)))) = 0"
    by simp
  from SaveAdf_guard_then_one_store_call [of "session True" "saving_service ''adf-1''"] on t0 good
  have b: "service_calls (added (session True) (snd (SaveAdf (saving_service ''adf-1'') (session True))))
        = [SaveAreaDescription] \<and>
      save_calls (trace (snd (SaveAdf (saving_service ''adf-1'') (session True)))) = 1 \<and>
      fst (SaveAdf (saving_service ''adf-1'') (session True)) = Inr ''adf-1''"
    by simp
  from SaveAdf_guard_then_one_store_call [of "session True" failing_service] on bad ne
  have c: "fst (SaveAdf failing_service (session True)) = Inr []"
    by simp
  from a b c show ?thesis by simp
qed

text \<open>
  Claim C10. \<^verbatim>\<open>SaveAdf\<close> returns the empty string both when the relocalization
  precondition fails and when the store rejects the save, so the two failures cannot be
  told apart from the return value; a non-empty return happens only when the flag is set
  and the store's save succeeded, and it is the UUID the store issued.
\<close>

theorem SaveAdf_empty_string_on_either_failure:
  "(\<not> PoseData_IsRelocalized (pose_data w) \<longrightarrow> fst (SaveAdf svc w) = Inr []) \<and>
   (PoseData_IsRelocalized (pose_data w) \<and>
      fst (fst (on_saveAreaDescription svc (tango w))) \<noteq> TANGO_SUCCESS \<longrightarrow>
        fst (SaveAdf svc w) = Inr []) \<and>
   (\<forall>u. fst (SaveAdf svc w) = Inr u \<and> u \<noteq> [] \<longrightarrow>
        PoseData_IsRelocalized (pose_data w) \<and>
        fst (on_saveAreaDescription svc (tango w)) = (TANGO_SUCCESS, Some u))"
proof (intro conjI impI allI)
  assume "\<not> PoseData_IsRelocalized (pose_data w)"
  then show "fst (SaveAdf svc w) = Inr []"
    by (simp add: SaveAdf_not_relocalized)
next
  assume a: "PoseData_IsRelocalized (pose_data w) \<and>
      fst (fst (on_saveAreaDescription svc (tango w))) \<noteq> TANGO_SUCCESS"
  obtain ret out s where o: "on_saveAreaDescription svc (tango w) = ((ret, out), s)"
    by (metis surj_pair)
  with a show "fst (SaveAdf svc w) = Inr []"
    by (simp add: SaveAdf_relocalized [OF _ o])
next
  fix u
  assume a: "fst (SaveAdf svc w) = Inr u \<and> u \<noteq> []"
  show r: "PoseData_IsRelocalized (pose_data w)"
  proof (rule ccontr)
    assume "\<not> PoseData_IsRelocalized (pose_data w)"
    with a show False by (auto simp: SaveAdf_not_relocalized)
  qed
  obtain ret out s where o: "on_saveAreaDescription svc (tango w) = ((ret, out), s)"
    by (metis surj_pair)
  from a have "ret = TANGO_SUCCESS \<and> out = Some u"
    by (cases out)
      (auto simp: SaveAdf_relocalized [OF r o] std_string_def assign_out_def split: if_splits)
  with o show "fst (on_saveAreaDescription svc (tango w)) = (TANGO_SUCCESS, Some u)"
    by simp
qed

theorem SaveAdf_empty_string_on_either_failure_witness:
  "fst (SaveAdf failing_service (session False)) = Inr [] \<and>
   fst (SaveAdf failing_service (session True)) = Inr [] \<and>
   fst (SaveAdf failing_service (session True)) = fst (SaveAdf (saving_service ''adf-1'') (session False)) \<and>
   fst (on_saveAreaDescription (saving_service ''adf-1'') (tango (session True)))
     = (TANGO_SUCCESS, Some ''adf-1'')"
proof -
  have off: "\<not> PoseData_IsRelocalized (pose_data (session False))"
    by (simp add: session_flag)
  have on: "PoseData_IsRelocalized (pose_data (session True))"
    by (simp add: session_flag)
  have bad: "fst (fst (on_saveAreaDescription failing_service (tango (session True)))) \<noteq> TANGO_SUCCESS"
    by (simp add: failing_service_def TANGO_ERROR_def TANGO_SUCCESS_def)
  have run: "fst (SaveAdf (saving_service ''adf-1'') (session True)) = Inr ''adf-1'' \<and> ''adf-1'' \<noteq> []"
    by (simp add: SaveAdf_saving_service)
  from SaveAdf_empty_string_on_either_failure [of "session False" failing_service] off
  have a: "fst (SaveAdf failing_service (session False)) = Inr []" by simp
  from SaveAdf_empty_string_on_either_failure [of "session False" "saving_service ''adf-1''"] off
  have a': "fst (SaveAdf (saving_service ''adf-1'') (session False)) = Inr []" by simp
  from SaveAdf_empty_string_on_either_failure [of "session True" failing_service] on bad
  have b: "fst (SaveAdf failing_service (session True)) = Inr []" by simp
  from SaveAdf_empty_string_on_either_failure [of "session True" "saving_service ''adf-1''"] run
  have c: "fst (on_saveAreaDescription (saving_service ''adf-1'') (tango (session True)))
     = (TANGO_SUCCESS, Some ''adf-1'')" by blast
  from a a' b c show ?thesis by simp
qed

section \<open>Parsing the UUID list\<close>

lemma split_on_no_sep: "sep \<notin> set t \<Longrightarrow> split_on sep t = [t]"
  by (induction t) auto

lemma split_on_token: "sep \<notin> set t \<Longrightarrow> split_on sep (t @ sep # rest) = t # split_on sep rest"
  by (induction t) auto

lemma tokens_skip: "ListUuids_tokens (dropWhile (\<lambda>c. c \<in> set '','') s) = ListUuids_tokens s"
  by (induction s) (auto simp: ListUuids_tokens_def)

lemma tokens_empty: "ListUuids_tokens [] = []"
  by (simp add: ListUuids_tokens_def)

lemma strtok_r_None:
  assumes "strtok_r str '','' = (None, saved)"
  shows "ListUuids_tokens str = []"
proof -
  define s where "s = dropWhile (\<lambda>c. c \<in> set '','') str"
  have unf: "strtok_r str '','' =
      (if s = [] then (None, s)
       else (Some (takeWhile (\<lambda>c. c \<notin> set '','') s),
             if dropWhile (\<lambda>c. c \<notin> set '','') s = [] then dropWhile (\<lambda>c. c \<notin> set '','') s
             else tl (dropWhile (\<lambda>c. c \<notin> set '','') s)))"
    unfolding strtok_r_def s_def Let_def by (rule refl)
  from assms unf have "s = []"
    by (cases "s = []") simp_all
  then have "ListUuids_tokens s = []"
    by (simp only: tokens_empty)
  then show ?thesis
    unfolding s_def by (simp only: tokens_skip)
qed

lemma strtok_r_Some:
  assumes "strtok_r str '','' = (Some token, saved)"
  shows "ListUuids_tokens str = token # ListUuids_tokens saved"
proof -
  define s where "s = dropWhile (\<lambda>c. c \<in> set '','') str"
  define rest where "rest = dropWhile (\<lambda>c. c \<notin> set '','') s"
  have unf: "strtok_r str '','' =
      (if s = [] then (None, s)
       else (Some (takeWhile (\<lambda>c. c \<notin> set '','') s), if rest = [] then rest else tl rest))"
    unfolding strtok_r_def s_def rest_def Let_def by (rule refl)
  from assms unf have ne: "s \<noteq> []"
    by (cases "s = []") simp_all
  from ne assms unf have tok: "token = takeWhile (\<lambda>c. c \<notin> set '','') s"
    and sv: "saved = (if rest = [] then rest else tl rest)"
    by simp_all
  have clean: "CHR '','' \<notin> set token"
    unfolding tok by (auto dest: set_takeWhileD)
  from ne have "\<not> (hd s \<in> set '','')"
    unfolding s_def by (rule hd_dropWhile)
  with ne have tne: "token \<noteq> []"
    unfolding tok by (cases s) auto
  have parts: "s = token @ rest"
    unfolding tok rest_def by simp
  have "ListUuids_tokens s = token # ListUuids_tokens saved"
  proof (cases "rest = []")
    case True
    with parts sv clean tne show ?thesis
      by (simp add: ListUuids_tokens_def split_on_no_sep)
  next
    case False
    then have "hd rest = CHR '',''"
      using hd_dropWhile [of "\<lambda>c. c \<notin> set '',''" s] by (simp add: rest_def)
    with False have "rest = CHR '','' # tl rest"
      by (cases rest) auto
    with parts have "s = token @ CHR '','' # tl rest" by simp
    then have "split_on (CHR '','') s = token # split_on (CHR '','') (tl rest)"
      using clean by (simp add: split_on_token)
    with False sv tne show ?thesis
      by (simp add: ListUuids_tokens_def)
  qed
  then show ?thesis
    unfolding s_def by (simp only: tokens_skip)
qed

lemma GetAdfUuids_loop_tokens:
  "GetAdfUuids_loop parsing_char saved_ptr adf_list =
     adf_list @ (case parsing_char of None \<Rightarrow> [] | Some t \<Rightarrow> t # ListUuids_tokens saved_ptr)"
proof (induction parsing_char saved_ptr adf_list rule: GetAdfUuids_loop.induct)
  case (1 parsing_char saved_ptr adf_list)
  show ?case
  proof (cases parsing_char)
    case None
    then show ?thesis by simp
  next
    case (Some str)
    obtain nt sn where st: "strtok_r saved_ptr '','' = (nt, sn)"
      by (metis surj_pair)
    have ih: "GetAdfUuids_loop nt sn (adf_list @ [str]) =
        (adf_list @ [str]) @ (case nt of None \<Rightarrow> [] | Some t \<Rightarrow> t # ListUuids_tokens sn)"
      using "1.IH" [OF Some st [symmetric]] .
    have "ListUuids_tokens saved_ptr = (case nt of None \<Rightarrow> [] | Some t \<Rightarrow> t # ListUuids_tokens sn)"
    proof (cases nt)
      case None
      with st show ?thesis by (simp add: strtok_r_None)
    next
      case (Some t)
      with st show ?thesis by (simp add: strtok_r_Some)
    qed
    with Some st ih show ?thesis
      by (simp del: GetAdfUuids_loop.simps add: GetAdfUuids_loop.simps [of "Some str"])
  qed
qed

lemma GetAdfUuids_parsed:
  assumes "on_getAreaDescriptionUUIDList svc (tango w) = ((ret, Some (Ptr blob)), s)"
  shows "fst (GetAdfUuids svc adf_list w) = Inr (adf_list @ ListUuids_tokens blob)"
proof (cases "blob = []")
  case True
  with assms show ?thesis
    by (simp add: GetAdfUuids_def TangoService_getAreaDescriptionUUIDList_def assign_out_def
        tokens_empty)
next
  case False
  obtain nt sn where st: "strtok_r blob '','' = (nt, sn)"
    by (metis surj_pair)
  have "ListUuids_tokens blob = (case nt of None \<Rightarrow> [] | Some t \<Rightarrow> t # ListUuids_tokens sn)"
  proof (cases nt)
    case None
    with st show ?thesis by (simp add: strtok_r_None)
  next
    case (Some t)
    with st show ?thesis by (simp add: strtok_r_Some)
  qed
  with assms False st show ?thesis
    by (simp add: GetAdfUuids_def TangoService_getAreaDescriptionUUIDList_def assign_out_def
        GetAdfUuids_loop_tokens del: GetAdfUuids_loop.simps)
qed

lemma listing_answer:
  "on_getAreaDescriptionUUIDList (listing_service blob) (tango (session r))
     = ((TANGO_SUCCESS, Some (Ptr blob)), ())"
  by (simp add: listing_service_def failing_service_def)

text \<open>
  Claim C5. Whatever comma-separated text the store returns, \<^verbatim>\<open>GetAdfUuids\<close> appends to
  the caller's vector exactly the non-empty pieces between the commas, in the order of the
  text. An empty text yields the empty sequence and no fault, \<^verbatim>\<open>"a,b,c"\<close> yields
  \<^verbatim>\<open>["a","b","c"]\<close>, and \<^verbatim>\<open>"a,b,"\<close> with its trailing comma yields \<^verbatim>\<open>["a","b"]\<close>.
\<close>

theorem GetAdfUuids_tokens_in_order:
  "(\<forall>ret s. on_getAreaDescriptionUUIDList svc (tango w) = ((ret, Some (Ptr blob)), s) \<longrightarrow>
      fst (GetAdfUuids svc adf_list w) = Inr (adf_list @ ListUuids_tokens blob)) \<and>
   fst (GetAdfUuids (listing_service '''') [] (session False)) = Inr [] \<and>
   fst (GetAdfUuids (listing_service ''a,b,c'') [] (session False)) = Inr [''a'', ''b'', ''c''] \<and>
   fst (GetAdfUuids (listing_service ''a,b,'') [] (session False)) = Inr [''a'', ''b'']"
proof (intro conjI allI impI)
  fix ret s
  assume "on_getAreaDescriptionUUIDList svc (tango w) = ((ret, Some (Ptr blob)), s)"
  then show "fst (GetAdfUuids svc adf_list w) = Inr (adf_list @ ListUuids_tokens blob)"
    by (rule GetAdfUuids_parsed)
next
  show "fst (GetAdfUuids (listing_service '''') [] (session False)) = Inr []"
    by (simp add: GetAdfUuids_parsed [OF listing_answer] ListUuids_tokens_def)
  show "fst (GetAdfUuids (listing_service ''a,b,c'') [] (session False)) = Inr [''a'', ''b'', ''c'']"
    by (simp add: GetAdfUuids_parsed [OF listing_answer] ListUuids_tokens_def)
  show "fst (GetAdfUuids (listing_service ''a,b,'') [] (session False)) = Inr [''a'', ''b'']"
    by (simp add: GetAdfUuids_parsed [OF listing_answer] ListUuids_tokens_def)
qed

theorem GetAdfUuids_tokens_in_order_witness:
  "fst (GetAdfUuids (listing_service '',x,,yz'') [''w''] (session False)) = Inr [''w'', ''x'', ''yz'']"
proof -
  have "fst (GetAdfUuids (listing_service '',x,,yz'') [''w''] (session False))
      = Inr ([''w''] @ ListUuids_tokens '',x,,yz'')"
    using GetAdfUuids_tokens_in_order
      [of "listing_service '',x,,yz''" "session False" "'',x,,yz''" "[''w'']"] listing_answer
    by blast
  then show ?thesis by (simp add: ListUuids_tokens_def)
qed

section \<open>The relocalization flag over a session\<close>

lemma IsRelocalized_flag: "fst (IsRelocalized w) = is_relocalized (pose_data w)"
  by (simp add: IsRelocalized_def step_def PoseData_IsRelocalized_def Let_def)

lemma pose_data_step: "pose_data (step a w) = pose_data w"
  by (simp add: step_def)

lemma pose_data_tango_update: "pose_data (w\<lparr>tango := s\<rparr>) = pose_data w"
  by simp

lemma pose_data_library_calls:
  "pose_data (snd (TangoService_saveAreaDescription svc u w)) = pose_data w"
  "pose_data (snd (TangoService_getAreaDescriptionMetadata svc uuid m w)) = pose_data w"
  "pose_data (snd (TangoAreaDescriptionMetadata_get svc m key n out w)) = pose_data w"
  "pose_data (snd (TangoAreaDescriptionMetadata_set svc m key n val w)) = pose_data w"
  "pose_data (snd (TangoService_saveAreaDescriptionMetadata svc uuid m w)) = pose_data w"
  "pose_data (snd (TangoService_getConfig svc w)) = pose_data w"
  "pose_data (snd (TangoService_getAreaDescriptionUUIDList svc u w)) = pose_data w"
  "pose_data (snd (TangoService_deleteAreaDescription svc uuid w)) = pose_data w"
  by (auto simp: TangoService_saveAreaDescription_def TangoService_getAreaDescriptionMetadata_def
      TangoAreaDescriptionMetadata_get_def TangoAreaDescriptionMetadata_set_def
      TangoService_saveAreaDescriptionMetadata_def TangoService_getConfig_def
      TangoService_getAreaDescriptionUUIDList_def TangoService_deleteAreaDescription_def
      step_def split: prod.splits)

lemma pose_data_SaveAdf: "pose_data (snd (SaveAdf svc w)) = pose_data w"
proof -
  obtain r w2 where c: "TangoService_saveAreaDescription svc Indeterminate
      (step (Member IsRelocalized_call) w) = (r, w2)"
    by (metis surj_pair)
  have "pose_data w2 = pose_data w"
    using pose_data_library_calls(1) [of svc Indeterminate "step (Member IsRelocalized_call) w"] c
    by (simp add: pose_data_step)
  with c show ?thesis
    by (cases r) (simp add: SaveAdf_def Let_def pose_data_step)
qed

lemma pose_data_GetAdfMetadataValue:
  "pose_data (snd (GetAdfMetadataValue svc uuid key w)) = pose_data w"
proof -
  obtain r1 m w1 where c1: "TangoService_getAreaDescriptionMetadata svc (c_str uuid) Indeterminate w
      = ((r1, m), w1)"
    by (metis surj_pair)
  obtain r2 n out w2 where c2: "TangoAreaDescriptionMetadata_get svc m (c_str key) 0 Indeterminate w1
      = ((r2, n, out), w2)"
    by (metis surj_pair)
  have "pose_data w1 = pose_data w"
    using pose_data_library_calls(2) [of svc "c_str uuid" Indeterminate w] c1 by simp
  moreover have "pose_data w2 = pose_data w1"
    using pose_data_library_calls(3) [of svc m "c_str key" 0 Indeterminate w1] c2 by simp
  ultimately show ?thesis
    using c1 c2 by (simp add: GetAdfMetadataValue_def)
qed

lemma pose_data_SetAdfMetadataValue:
  "pose_data (SetAdfMetadataValue svc uuid key val w) = pose_data w"
proof -
  obtain r1 m w1 where c1: "TangoService_getAreaDescriptionMetadata svc (c_str uuid) Indeterminate w
      = ((r1, m), w1)"
    by (metis surj_pair)
  obtain r2 w2 where c2: "TangoAreaDescriptionMetadata_set svc m (c_str key) (length val) val w1
      = (r2, w2)"
    by (metis surj_pair)
  obtain r3 w3 where c3: "TangoService_saveAreaDescriptionMetadata svc (c_str uuid) m w2 = (r3, w3)"
    by (metis surj_pair)
  have "pose_data w1 = pose_data w"
    using pose_data_library_calls(2) [of svc "c_str uuid" Indeterminate w] c1 by simp
  moreover have "pose_data w2 = pose_data w1"
    using pose_data_library_calls(4) [of svc m "c_str key" "length val" val w1] c2 by simp
  moreover have "pose_data w3 = pose_data w2"
    using pose_data_library_calls(5) [of svc "c_str uuid" m w2] c3 by simp
  ultimately show ?thesis
    using c1 c2 c3 by (simp add: SetAdfMetadataValue_def)
qed

lemma pose_data_GetAllAdfUuids: "pose_data (snd (GetAllAdfUuids svc w)) = pose_data w"
proof -
  obtain cfg w1 where c1: "TangoService_getConfig svc w = (cfg, w1)"
    by (metis surj_pair)
  obtain r l w2 where c2: "TangoService_getAreaDescriptionUUIDList svc Nullptr w1 = ((r, l), w2)"
    by (metis surj_pair)
  have "pose_data w1 = pose_data w"
    using pose_data_library_calls(6) [of svc w] c1 by simp
  moreover have "pose_data w2 = pose_data w1"
    using pose_data_library_calls(7) [of svc Nullptr w1] c2 by simp
  ultimately show ?thesis
    using c1 c2 by (simp add: GetAllAdfUuids_def)
qed

lemma pose_data_GetAdfUuids: "pose_data (snd (GetAdfUuids svc adf_list w)) = pose_data w"
proof -
  obtain r l w1 where c1: "TangoService_getAreaDescriptionUUIDList svc Nullptr w = ((r, l), w1)"
    by (metis surj_pair)
  have "pose_data w1 = pose_data w"
    using pose_data_library_calls(7) [of svc Nullptr w] c1 by simp
  then show ?thesis
    using c1 by (simp add: GetAdfUuids_def split: cvar.splits prod.splits
        del: GetAdfUuids_loop.simps)
qed

lemma pose_data_DeleteAdf: "pose_data (DeleteAdf svc uuid w) = pose_data w"
  by (simp add: DeleteAdf_def pose_data_library_calls)

lemma pose_data_onTangoEventAvailable:
  "pose_data (snd (onTangoEventAvailable event w)) = pose_data w"
  by (simp add: onTangoEventAvailable_def OnAdfSavingProgressChanged_def pose_data_step Let_def
      split: sum.splits)

lemma pose_data_Render: "pose_data (Render w) = pose_data w"
  by (simp add: Render_def pose_data_step Let_def)

lemma pose_data_IsRelocalized: "pose_data (snd (IsRelocalized w)) = pose_data w"
  by (simp add: IsRelocalized_def pose_data_step Let_def)

lemma pose_data_onPoseAvailable:
  "pose_data (onPoseAvailable pose w) = UpdatePose pose (pose_data w)"
  by (simp add: onPoseAvailable_def step_def Let_def)

lemma pose_data_FreeContent: "pose_data (FreeContent w) = PoseData_init"
  by (simp add: FreeContent_def step_def ResetPoseData_def Let_def)

lemma UpdatePose_flag:
  "is_relocalized (UpdatePose pose pd) =
     (is_relocalized pd \<or> relocalizing (Call_onPoseAvailable pose))"
  by (auto simp: UpdatePose_def)

lemma perform_flag:
  "is_relocalized (pose_data (perform svc c w)) =
     (if c = Call_FreeContent then False
      else is_relocalized (pose_data w) \<or> relocalizing c)"
  by (cases c)
    (simp_all add: pose_data_SaveAdf pose_data_GetAdfMetadataValue pose_data_SetAdfMetadataValue
      pose_data_GetAllAdfUuids pose_data_GetAdfUuids pose_data_DeleteAdf
      pose_data_onTangoEventAvailable pose_data_Render pose_data_IsRelocalized
      pose_data_onPoseAvailable pose_data_FreeContent UpdatePose_flag PoseData_init_def)

lemma run_snoc: "run svc (calls @ [c]) w = perform svc c (run svc calls w)"
  by (simp add: run_def)

lemma run_stays_false:
  "\<not> is_relocalized (pose_data w) \<Longrightarrow> \<forall>c \<in> set calls. \<not> relocalizing c \<Longrightarrow>
     \<not> is_relocalized (pose_data (run svc calls w))"
  by (induction calls rule: rev_induct) (simp_all add: run_def perform_flag)

lemma run_stays_true:
  "is_relocalized (pose_data w) \<Longrightarrow> Call_FreeContent \<notin> set calls \<Longrightarrow>
     is_relocalized (pose_data (run svc calls w))"
  by (induction calls rule: rev_induct) (auto simp: run_def perform_flag)

text \<open>
  Claim C8. \<^verbatim>\<open>IsRelocalized()\<close> is false in a session that has received no valid
  (area description to device) pose, whatever other calls were made; it is true right
  after the first such pose; it stays true through every later call that is not
  \<^verbatim>\<open>FreeContent\<close>, later invalid poses for the same pair included; and
  \<^verbatim>\<open>FreeContent\<close>, which calls \<^verbatim>\<open>ResetPoseData\<close>, clears it.
\<close>

theorem relocalized_once_set_stays_until_reset:
  "\<not> fst (IsRelocalized (session False)) \<and>
   (\<not> fst (IsRelocalized w) \<and> (\<forall>c \<in> set calls. \<not> relocalizing c) \<longrightarrow>
      \<not> fst (IsRelocalized (run svc calls w))) \<and>
   (relocalizing c \<longrightarrow> fst (IsRelocalized (perform svc c w))) \<and>
   (fst (IsRelocalized w) \<and> Call_FreeContent \<notin> set calls \<longrightarrow>
      fst (IsRelocalized (run svc calls w))) \<and>
   \<not> fst (IsRelocalized (perform svc Call_FreeContent w))"
proof (intro conjI impI)
  show "\<not> fst (IsRelocalized (session False))"
    by (simp add: IsRelocalized_flag session_def PoseData_init_def)
next
  assume "\<not> fst (IsRelocalized w) \<and> (\<forall>c \<in> set calls. \<not> relocalizing c)"
  then show "\<not> fst (IsRelocalized (run svc calls w))"
    by (simp add: IsRelocalized_flag run_stays_false)
next
  assume r: "relocalizing c"
  then have "c \<noteq> Call_FreeContent"
    by auto
  with r show "fst (IsRelocalized (perform svc c w))"
    by (simp add: IsRelocalized_flag perform_flag del: perform.simps)
next
  assume "fst (IsRelocalized w) \<and> Call_FreeContent \<notin> set calls"
  then show "fst (IsRelocalized (run svc calls w))"
    by (simp add: IsRelocalized_flag run_stays_true)
next
  show "\<not> fst (IsRelocalized (perform svc Call_FreeContent w))"
    by (simp add: IsRelocalized_flag perform_flag del: perform.simps)
qed

theorem relocalized_once_set_stays_until_reset_witness:
  "\<not> fst (IsRelocalized (run failing_service
       [Call_onPoseAvailable (adf_device_pose TANGO_POSE_INVALID), Call_Render] (session False))) \<and>
   fst (IsRelocalized (perform failing_service
       (Call_onPoseAvailable (adf_device_pose TANGO_POSE_VALID)) (session False))) \<and>
   fst (IsRelocalized (run failing_service
       [Call_onPoseAvailable (adf_device_pose TANGO_POSE_INVALID), Call_SaveAdf, Call_Render]
       (perform failing_service (Call_onPoseAvailable (adf_device_pose TANGO_POSE_VALID))
          (session False)))) \<and>
   \<not> fst (IsRelocalized (perform failing_service Call_FreeContent
       (perform failing_service (Call_onPoseAvailable (adf_device_pose TANGO_POSE_VALID))
          (session False))))"
proof -
  let ?valid = "Call_onPoseAvailable (adf_device_pose TANGO_POSE_VALID)"
  let ?invalid = "Call_onPoseAvailable (adf_device_pose TANGO_POSE_INVALID)"
  have v: "relocalizing ?valid" and i: "\<not> relocalizing ?invalid"
    by (simp_all add: adf_device_pose_def)
  note t = relocalized_once_set_stays_until_reset
  from t [of "session False" "[?invalid, Call_Render]" failing_service] i
  have a: "\<not> fst (IsRelocalized (run failing_service [?invalid, Call_Render] (session False)))"
    by simp
  from t [of _ _ failing_service ?valid] v
  have b: "fst (IsRelocalized (perform failing_service ?valid (session False)))"
    by blast
  from t [of "perform failing_service ?valid (session False)"
      "[?invalid, Call_SaveAdf, Call_Render]" failing_service] b
  have c: "fst (IsRelocalized (run failing_service [?invalid, Call_SaveAdf, Call_Render]
      (perform failing_service ?valid (session False))))"
    by simp
  from t [of "perform failing_service ?valid (session False)" _ failing_service]
  have d: "\<not> fst (IsRelocalized (perform failing_service Call_FreeContent
      (perform failing_service ?valid (session False))))"
    by blast
  from a b c d show ?thesis by blast
qed

section \<open>Reporting save progress\<close>

text \<open>Rounding a ratio of at most 100 gives a double whose integer part is at most 100.\<close>

lemma nearest_even_le:
  assumes "0 < q" "p \<le> N * q"
  shows "nearest_even p q \<le> N"
proof -
  have d: "p div q \<le> N"
    using assms by (metis div_mult_self_is_m zdiv_mono1 mult.commute nonzero_mult_div_cancel_right less_irrefl)
  show ?thesis
  proof (cases "p div q = N")
    case True
    have "p = q * (p div q) + p mod q" by simp
    with True assms have "p mod q \<le> 0"
      by (metis add_le_same_cancel1 mult.commute)
    moreover have "0 \<le> p mod q" using assms by simp
    ultimately have "p mod q = 0" by simp
    with True assms show ?thesis
      by (simp add: nearest_even_def Let_def)
  next
    case False
    with d have "p div q + 1 \<le> N" by simp
    with d show ?thesis
      by (simp add: nearest_even_def Let_def)
  qed
qed

lemma nearest_even_nonneg:
  assumes "0 < q" "0 \<le> p"
  shows "0 \<le> nearest_even p q"
proof -
  have "0 \<le> p div q" using assms by (simp add: pos_imp_zdiv_nonneg_iff)
  then show ?thesis by (simp add: nearest_even_def Let_def)
qed

lemma binade_lower:
  assumes p: "0 < p" and q: "0 < q"
  shows "if 0 \<le> binade p q then 2 ^ nat (binade p q) * q \<le> p
         else q \<le> 2 ^ nat (- binade p q) * p"
proof -
  define a where "a = bitlen p - bitlen q"
  define test where "test = (if 0 \<le> a then 2 ^ nat a * q \<le> p else q \<le> 2 ^ nat (- a) * p)"
  have b: "binade p q = (if test then a else a - 1)"
    by (simp add: binade_def a_def test_def Let_def)
  show ?thesis
  proof (cases test)
    case True
    with b show ?thesis by (simp add: test_def)
  next
    case False
    have bp: "2 ^ nat (bitlen p - 1) \<le> p" using bitlen_bounds [OF p] by simp
    have bq: "q < 2 ^ nat (bitlen q)" using bitlen_bounds [OF q] by simp
    have p1: "1 \<le> bitlen p" using p by (simp add: bitlen_alt_def)
    have q1: "1 \<le> bitlen q" using q by (simp add: bitlen_alt_def)
    show ?thesis
    proof (cases "0 \<le> a - 1")
      case True
      have "nat (a - 1) + nat (bitlen q) = nat (bitlen p - 1)"
        using True q1 by (simp add: a_def nat_add_distrib [symmetric])
      then have e: "(2::int) ^ nat (a - 1) * 2 ^ nat (bitlen q) = 2 ^ nat (bitlen p - 1)"
        by (simp add: power_add [symmetric])
      have "2 ^ nat (a - 1) * q \<le> 2 ^ nat (a - 1) * 2 ^ nat (bitlen q)"
        using bq by (simp add: mult_left_mono)
      with e bp have "2 ^ nat (a - 1) * q \<le> p" by linarith
      with True False b show ?thesis by simp
    next
      case neg: False
      have "nat (1 - a) + nat (bitlen p - 1) = nat (bitlen q)"
        using neg p1 by (simp add: a_def nat_add_distrib [symmetric])
      then have e: "(2::int) ^ nat (1 - a) * 2 ^ nat (bitlen p - 1) = 2 ^ nat (bitlen q)"
        by (simp add: power_add [symmetric])
      have "2 ^ nat (1 - a) * 2 ^ nat (bitlen p - 1) \<le> 2 ^ nat (1 - a) * p"
        using bp by (simp add: mult_left_mono)
      with e bq have "q \<le> 2 ^ nat (1 - a) * p" by linarith
      moreover have "- (a - 1) = 1 - a" by simp
      ultimately show ?thesis using neg False b by simp
    qed
  qed
qed

lemma binade_le_6:
  assumes p: "0 < p" and q: "0 < q" and le: "p \<le> 100 * q"
  shows "binade p q \<le> 6"
proof (rule ccontr)
  assume "\<not> binade p q \<le> 6"
  then have big: "7 \<le> binade p q" by simp
  then have "2 ^ nat (binade p q) * q \<le> p"
    using binade_lower [OF p q] by simp
  moreover have "(2::int) ^ 7 \<le> 2 ^ nat (binade p q)"
    using big by (intro power_increasing) simp_all
  then have "2 ^ 7 * q \<le> 2 ^ nat (binade p q) * q"
    using q by (simp add: mult_right_mono)
  ultimately have "128 * q \<le> 100 * q" using le by simp
  with q show False by simp
qed

lemma to_double_percent:
  assumes q: "0 < q" and p: "0 \<le> p" and le: "p \<le> 100 * q"
  shows "\<exists>t. double_to_int (to_double False p q) = Inr t \<and> 0 \<le> t \<and> t \<le> 100"
proof (cases "p = 0")
  case True
  then show ?thesis by (simp add: to_double_def double_to_int_def)
next
  case False
  with p have pp: "0 < p" by simp
  define e where "e = max (binade p q) (- 1022)"
  define k where "k = nat (52 - e)"
  define m where "m = nearest_even (p * 2 ^ k) q"
  have e6: "e \<le> 6" using binade_le_6 [OF pp q le] by (simp add: e_def)
  have m0: "0 \<le> m" unfolding m_def using q p by (intro nearest_even_nonneg) simp_all
  have "p * 2 ^ k \<le> (100 * 2 ^ k) * q" using le by simp
  then have m100: "m \<le> 100 * 2 ^ k" unfolding m_def using q by (intro nearest_even_le)
  have td: "to_double False p q = Finite m (e - 52)"
    using False e6 by (simp add: to_double_def Let_def e_def [symmetric] m_def k_def)
  have neg: "\<not> 0 \<le> e - 52" using e6 by simp
  have kk: "nat (- (e - 52)) = k" by (simp add: k_def)
  define t where "t = m div 2 ^ k"
  have t0: "0 \<le> t" unfolding t_def using m0 by (simp add: pos_imp_zdiv_nonneg_iff)
  have "m div 2 ^ k \<le> (100 * 2 ^ k) div 2 ^ k" using m100 by (intro zdiv_mono1) simp_all
  then have t100: "t \<le> 100" by (simp add: t_def)
  have tt: "m div 2 ^ nat (52 - e) = t" by (simp add: t_def k_def)
  have "double_to_int (Finite m (e - 52)) = Inr t"
    using neg m0 t0 t100 by (simp add: double_to_int_def Let_def tt)
  with td t0 t100 show ?thesis by simp
qed

lemma percent_of_ratio:
  assumes "0 \<le> double_value (Finite m e)" "double_value (Finite m e) \<le> 1"
  shows "\<exists>t. double_to_int (double_mult (Finite m e) (Finite 100 0)) = Inr t \<and> 0 \<le> t \<and> t \<le> 100"
proof (cases "0 \<le> e")
  case True
  have pos: "(0::rat) < 2 ^ nat e" by simp
  from assms(1) True have v0: "0 \<le> (of_int m :: rat) * 2 ^ nat e"
    by (simp add: double_value_def)
  have m0: "0 \<le> m"
  proof (rule ccontr)
    assume "\<not> 0 \<le> m"
    then have "(of_int m :: rat) < 0" by simp
    then have "(of_int m :: rat) * 2 ^ nat e < 0" using pos by (rule mult_neg_pos)
    with v0 show False by simp
  qed
  from assms(2) True have "(of_int (m * 2 ^ nat e) :: rat) \<le> of_int 1"
    by (simp add: double_value_def)
  then have "m * 2 ^ nat e \<le> 1" by (simp only: of_int_le_iff)
  with m0 have "\<exists>t. double_to_int (to_double False (m * 100 * 2 ^ nat e) 1) = Inr t \<and> 0 \<le> t \<and> t \<le> 100"
    by (intro to_double_percent) simp_all
  with True m0 show ?thesis
    by (simp add: double_mult_def Let_def abs_if mult_less_0_iff)
next
  case False
  have pos: "(0::rat) < 1 / 2 ^ nat (- e)" by simp
  from assms(1) False have v0: "0 \<le> (of_int m :: rat) * (1 / 2 ^ nat (- e))"
    by (simp add: double_value_def)
  have m0: "0 \<le> m"
  proof (rule ccontr)
    assume "\<not> 0 \<le> m"
    then have "(of_int m :: rat) < 0" by simp
    then have "(of_int m :: rat) * (1 / 2 ^ nat (- e)) < 0" using pos by (rule mult_neg_pos)
    with v0 show False by simp
  qed
  from assms(2) False have "(of_int m :: rat) \<le> of_int (2 ^ nat (- e))"
    by (simp add: double_value_def pos_divide_le_eq)
  then have "m \<le> 2 ^ nat (- e)" by (simp only: of_int_le_iff)
  with m0 have "\<exists>t. double_to_int (to_double False (m * 100) (2 ^ nat (- e))) = Inr t \<and> 0 \<le> t \<and> t \<le> 100"
    by (intro to_double_percent) simp_all
  with False m0 show ?thesis
    by (simp add: double_mult_def Let_def abs_if mult_less_0_iff)
qed


lemma onTangoEventAvailable_other:
  assumes "\<not> (event_type ev = TANGO_EVENT_AREA_LEARNING \<and>
              event_key ev = ''AreaDescriptionSaveProgress'')"
  shows "onTangoEventAvailable ev w =
     (Inr (), w\<lparr>tango_event_data := Some ev,
                 trace := trace w @ [Acquire tango_event_mutex, Member UpdateTangoEvent_call,
                                     Release tango_event_mutex]\<rparr>)"
  using assms by (auto simp: onTangoEventAvailable_def step_def UpdateTangoEvent_def Let_def)

lemma onTangoEventAvailable_progress:
  assumes "event_type ev = TANGO_EVENT_AREA_LEARNING"
    and "event_key ev = ''AreaDescriptionSaveProgress''"
    and "double_to_int (double_mult (atof (event_value ev)) (Finite 100 0)) = Inr p"
  shows "onTangoEventAvailable ev w =
     (Inr (), w\<lparr>tango_event_data := Some ev,
                 trace := trace w @ [Acquire tango_event_mutex, Member UpdateTangoEvent_call,
                                     UpdateSavingAdfProgress p, Release tango_event_mutex]\<rparr>)"
  using assms
  by (simp add: onTangoEventAvailable_def step_def UpdateTangoEvent_def Let_def
      OnAdfSavingProgressChanged_def)

lemma onTangoEventAvailable_fault:
  assumes "event_type ev = TANGO_EVENT_AREA_LEARNING"
    and "event_key ev = ''AreaDescriptionSaveProgress''"
    and "double_to_int (double_mult (atof (event_value ev)) (Finite 100 0)) = Inl f"
  shows "onTangoEventAvailable ev w =
     (Inl f, w\<lparr>tango_event_data := Some ev,
                trace := trace w @ [Acquire tango_event_mutex, Member UpdateTangoEvent_call]\<rparr>)"
  using assms
  by (simp add: onTangoEventAvailable_def step_def UpdateTangoEvent_def Let_def)

lemma percent_037: "double_to_int (double_mult (atof ''0.37'') (Finite 100 0)) = Inr 37"
  by code_simp

lemma percent_oops: "double_to_int (double_mult (atof ''oops'') (Finite 100 0)) = Inr 0"
  by code_simp

lemma atof_037: "atof ''0.37'' = Finite 6665327448508334 (- 54)"
  by code_simp

lemma area_learning_event_simps:
  "event_type (area_learning_event k v) = TANGO_EVENT_AREA_LEARNING"
  "event_key (area_learning_event k v) = k"
  "event_value (area_learning_event k v) = v"
  by (simp_all add: area_learning_event_def)

lemma percent_2_5: "double_to_int (double_mult (atof ''2.5'') (Finite 100 0)) = Inr 250"
  by code_simp

text \<open>
  Claim C4, as stated, fails: it puts every report in [0, 100], but line 63 scales the
  parsed value as it is. A save-progress event with value \<^verbatim>\<open>"2.5"\<close> is reported as 250.
\<close>

theorem report_of_ratio_above_one_exceeds_100:
  "reports (added (session False) (snd (onTangoEventAvailable
      (area_learning_event ''AreaDescriptionSaveProgress'' ''2.5'') (session False)))) = [250] \<and>
   \<not> reports_within_percent_range (added (session False) (snd (onTangoEventAvailable
      (area_learning_event ''AreaDescriptionSaveProgress'' ''2.5'') (session False))))"
  by (simp add: onTangoEventAvailable_progress
      [of "area_learning_event ''AreaDescriptionSaveProgress'' ''2.5''" 250 "session False"]
      area_learning_event_simps percent_2_5 added_def reports_within_percent_range_def)

text \<open>
  Claim C4, amended. For every event handed to \<^verbatim>\<open>onTangoEventAvailable\<close>: when the type
  is not area-learning or the key is not \<^verbatim>\<open>"AreaDescriptionSaveProgress"\<close>, nothing is
  reported and no fault is raised; when both match and \<^verbatim>\<open>atof(value) * 100\<close> converts to
  an \<^verbatim>\<open>int\<close>, exactly one report is made, of that \<^verbatim>\<open>int\<close>, with no clamping. When the
  value parses to a ratio in [0.0, 1.0] the reported percent lies in [0, 100] and no fault
  is raised. The value \<^verbatim>\<open>"0.37"\<close> is reported as 37, and the non-numeric \<^verbatim>\<open>"oops"\<close> as
  0, both without a fault reaching the caller.
\<close>

theorem onTangoEventAvailable_reports_percent:
  "(\<not> (event_type ev = TANGO_EVENT_AREA_LEARNING \<and>
        event_key ev = ''AreaDescriptionSaveProgress'') \<longrightarrow>
      reports (added w (snd (onTangoEventAvailable ev w))) = [] \<and>
      fst (onTangoEventAvailable ev w) = Inr ()) \<and>
   (event_type ev = TANGO_EVENT_AREA_LEARNING \<and>
    event_key ev = ''AreaDescriptionSaveProgress'' \<longrightarrow>
      (\<forall>p. double_to_int (double_mult (atof (event_value ev)) (Finite 100 0)) = Inr p \<longrightarrow>
         reports (added w (snd (onTangoEventAvailable ev w))) = [p] \<and>
         fst (onTangoEventAvailable ev w) = Inr ()) \<and>
      (\<forall>m e. atof (event_value ev) = Finite m e \<and> 0 \<le> double_value (Finite m e) \<and>
             double_value (Finite m e) \<le> 1 \<longrightarrow>
         (\<exists>p. 0 \<le> p \<and> p \<le> 100 \<and>
              reports (added w (snd (onTangoEventAvailable ev w))) = [p] \<and>
              fst (onTangoEventAvailable ev w) = Inr ()))) \<and>
   reports (added (session False)
      (snd (onTangoEventAvailable
         (area_learning_event ''AreaDescriptionSaveProgress'' ''0.37'') (session False)))) = [37] \<and>
   fst (onTangoEventAvailable
         (area_learning_event ''AreaDescriptionSaveProgress'' ''0.37'') (session False)) = Inr () \<and>
   reports (added (session False)
      (snd (onTangoEventAvailable
         (area_learning_event ''AreaDescriptionSaveProgress'' ''oops'') (session False)))) = [0] \<and>
   fst (onTangoEventAvailable
         (area_learning_event ''AreaDescriptionSaveProgress'' ''oops'') (session False)) = Inr ()"
proof (intro conjI impI allI)
  assume n: "\<not> (event_type ev = TANGO_EVENT_AREA_LEARNING \<and>
      event_key ev = ''AreaDescriptionSaveProgress'')"
  show "reports (added w (snd (onTangoEventAvailable ev w))) = []"
    by (simp add: onTangoEventAvailable_other [OF n] added_def)
  show "fst (onTangoEventAvailable ev w) = Inr ()"
    by (simp add: onTangoEventAvailable_other [OF n])
next
  fix p
  assume c: "event_type ev = TANGO_EVENT_AREA_LEARNING \<and>
      event_key ev = ''AreaDescriptionSaveProgress''"
    and d: "double_to_int (double_mult (atof (event_value ev)) (Finite 100 0)) = Inr p"
  note e = onTangoEventAvailable_progress [OF conjunct1 [OF c] conjunct2 [OF c] d]
  show "reports (added w (snd (onTangoEventAvailable ev w))) = [p]"
    by (simp add: e added_def)
  show "fst (onTangoEventAvailable ev w) = Inr ()"
    by (simp add: e)
next
  fix m e
  assume c: "event_type ev = TANGO_EVENT_AREA_LEARNING \<and>
      event_key ev = ''AreaDescriptionSaveProgress''"
    and r: "atof (event_value ev) = Finite m e \<and> 0 \<le> double_value (Finite m e) \<and>
      double_value (Finite m e) \<le> 1"
  from r obtain p where d: "double_to_int (double_mult (Finite m e) (Finite 100 0)) = Inr p"
    and b: "0 \<le> p" "p \<le> 100"
    using percent_of_ratio [of m e] by blast
  from d r have d': "double_to_int (double_mult (atof (event_value ev)) (Finite 100 0)) = Inr p"
    by simp
  note e = onTangoEventAvailable_progress [OF conjunct1 [OF c] conjunct2 [OF c] d']
  have "reports (added w (snd (onTangoEventAvailable ev w))) = [p]"
    by (simp add: e added_def)
  moreover have "fst (onTangoEventAvailable ev w) = Inr ()"
    by (simp add: e)
  ultimately show "\<exists>p. 0 \<le> p \<and> p \<le> 100 \<and>
      reports (added w (snd (onTangoEventAvailable ev w))) = [p] \<and>
      fst (onTangoEventAvailable ev w) = Inr ()"
    using b by blast
next
  note e = onTangoEventAvailable_progress
    [of "area_learning_event ''AreaDescriptionSaveProgress'' ''0.37''" 37 "session False"]
  show "reports (added (session False)
      (snd (onTangoEventAvailable
         (area_learning_event ''AreaDescriptionSaveProgress'' ''0.37'') (session False)))) = [37]"
    by (simp add: e area_learning_event_simps percent_037 added_def)
  show "fst (onTangoEventAvailable
         (area_learning_event ''AreaDescriptionSaveProgress'' ''0.37'') (session False)) = Inr ()"
    by (simp add: e area_learning_event_simps percent_037)
next
  note e = onTangoEventAvailable_progress
    [of "area_learning_event ''AreaDescriptionSaveProgress'' ''oops''" 0 "session False"]
  show "reports (added (session False)
      (snd (onTangoEventAvailable
         (area_learning_event ''AreaDescriptionSaveProgress'' ''oops'') (session False)))) = [0]"
    by (simp add: e area_learning_event_simps percent_oops added_def)
  show "fst (onTangoEventAvailable
         (area_learning_event ''AreaDescriptionSaveProgress'' ''oops'') (session False)) = Inr ()"
    by (simp add: e area_learning_event_simps percent_oops)
qed

theorem onTangoEventAvailable_reports_percent_witness:
  "reports (added (session False) (snd (onTangoEventAvailable
      (area_learning_event ''AreaDescriptionSaveProgress'' ''0.5'') (session False)))) = [50] \<and>
   reports (added (session False) (snd (onTangoEventAvailable
      (area_learning_event ''SomethingElse'' ''0.5'') (session False)))) = [] \<and>
   (\<exists>p. 0 \<le> p \<and> p \<le> 100 \<and>
      reports (added (session False) (snd (onTangoEventAvailable
        (area_learning_event ''AreaDescriptionSaveProgress'' ''0.37'') (session False)))) = [p])"
proof -
  note t = onTangoEventAvailable_reports_percent
  have half: "double_to_int (double_mult (atof ''0.5'') (Finite 100 0)) = Inr 50"
    by code_simp
  have unit: "0 \<le> double_value (Finite 6665327448508334 (- 54)) \<and>
      double_value (Finite 6665327448508334 (- 54)) \<le> 1"
    by (simp add: double_value_def)
  from t [of "area_learning_event ''AreaDescriptionSaveProgress'' ''0.5''" "session False"] half
  have a: "reports (added (session False) (snd (onTangoEventAvailable
      (area_learning_event ''AreaDescriptionSaveProgress'' ''0.5'') (session False)))) = [50]"
    by (simp add: area_learning_event_simps)
  from t [of "area_learning_event ''SomethingElse'' ''0.5''" "session False"]
  have b: "reports (added (session False) (snd (onTangoEventAvailable
      (area_learning_event ''SomethingElse'' ''0.5'') (session False)))) = []"
    by (simp add: area_learning_event_simps)
  from t [of "area_learning_event ''AreaDescriptionSaveProgress'' ''0.37''" "session False"]
    atof_037 unit
  have c: "\<exists>p. 0 \<le> p \<and> p \<le> 100 \<and>
      reports (added (session False) (snd (onTangoEventAvailable
        (area_learning_event ''AreaDescriptionSaveProgress'' ''0.37'') (session False)))) = [p]"
    by (simp add: area_learning_event_simps)
  from a b c show ?thesis by blast
qed

section \<open>The event mutex and the progress report\<close>

lemma onTangoEventAvailable_added:
  "added w (snd (onTangoEventAvailable ev w)) =
     (if event_type ev = TANGO_EVENT_AREA_LEARNING \<and>
         event_key ev = ''AreaDescriptionSaveProgress''
      then (case double_to_int (double_mult (atof (event_value ev)) (Finite 100 0)) of
              Inl f \<Rightarrow> [Acquire tango_event_mutex, Member UpdateTangoEvent_call]
            | Inr p \<Rightarrow> [Acquire tango_event_mutex, Member UpdateTangoEvent_call,
                        UpdateSavingAdfProgress p, Release tango_event_mutex])
      else [Acquire tango_event_mutex, Member UpdateTangoEvent_call, Release tango_event_mutex])"
proof (cases "event_type ev = TANGO_EVENT_AREA_LEARNING \<and>
    event_key ev = ''AreaDescriptionSaveProgress''")
  case False
  have "added w (snd (onTangoEventAvailable ev w)) =
      [Acquire tango_event_mutex, Member UpdateTangoEvent_call, Release tango_event_mutex]"
    by (simp add: onTangoEventAvailable_other [OF False] added_def)
  with False show ?thesis by auto
next
  case True
  show ?thesis
  proof (cases "double_to_int (double_mult (atof (event_value ev)) (Finite 100 0))")
    case (Inl f)
    with True show ?thesis
      by (simp add: onTangoEventAvailable_fault [OF conjunct1 [OF True] conjunct2 [OF True] Inl]
          added_def)
  next
    case (Inr p)
    with True show ?thesis
      by (simp add: onTangoEventAvailable_progress [OF conjunct1 [OF True] conjunct2 [OF True] Inr]
          added_def)
  qed
qed

lemma onTangoEventAvailable_result:
  "fst (onTangoEventAvailable ev w) =
     (if event_type ev = TANGO_EVENT_AREA_LEARNING \<and>
         event_key ev = ''AreaDescriptionSaveProgress''
      then (case double_to_int (double_mult (atof (event_value ev)) (Finite 100 0)) of
              Inl f \<Rightarrow> Inl f
            | Inr p \<Rightarrow> Inr ())
      else Inr ())"
  by (simp add: onTangoEventAvailable_def Let_def split: sum.splits)

text \<open>
  Claim C6, as stated, fails: for a save-progress event with value \<^verbatim>\<open>"0.37"\<close> the report is
  made while \<^verbatim>\<open>tango_event_mutex_\<close> is held, so it is not true that every report is
  issued only after the lock has been released.
\<close>

theorem report_issued_before_release:
  "\<not> report_after_release (added (session False) (snd (onTangoEventAvailable
        (area_learning_event ''AreaDescriptionSaveProgress'' ''0.37'') (session False))))"
  by (simp add: onTangoEventAvailable_added area_learning_event_simps percent_037
      report_after_release_def)

text \<open>
  Claim C6, amended. In every execution of \<^verbatim>\<open>onTangoEventAvailable\<close> a progress report,
  when one is made, is issued while the event mutex is held; the mutex is taken first and,
  when the call returns, given back last and no mutex remains held; and a call that
  reports takes exactly the steps: take the mutex, store the event, report, give the
  mutex back.
\<close>

theorem onTangoEventAvailable_reports_under_lock:
  "report_under_lock (added w (snd (onTangoEventAvailable ev w))) \<and>
   (fst (onTangoEventAvailable ev w) = Inr () \<longrightarrow>
      held_after [] (added w (snd (onTangoEventAvailable ev w))) = [] \<and>
      hd (added w (snd (onTangoEventAvailable ev w))) = Acquire tango_event_mutex \<and>
      last (added w (snd (onTangoEventAvailable ev w))) = Release tango_event_mutex) \<and>
   (\<forall>p. reports (added w (snd (onTangoEventAvailable ev w))) = [p] \<longrightarrow>
      added w (snd (onTangoEventAvailable ev w)) =
        [Acquire tango_event_mutex, Member UpdateTangoEvent_call, UpdateSavingAdfProgress p,
         Release tango_event_mutex])"
proof (intro conjI impI allI)
  show "report_under_lock (added w (snd (onTangoEventAvailable ev w)))"
    by (simp add: onTangoEventAvailable_added report_under_lock_def split: sum.splits)
next
  assume ok: "fst (onTangoEventAvailable ev w) = Inr ()"
  show "held_after [] (added w (snd (onTangoEventAvailable ev w))) = []"
    using ok by (auto simp: onTangoEventAvailable_added onTangoEventAvailable_result
        split: sum.splits if_splits)
  show "hd (added w (snd (onTangoEventAvailable ev w))) = Acquire tango_event_mutex"
    by (simp add: onTangoEventAvailable_added split: sum.splits)
  show "last (added w (snd (onTangoEventAvailable ev w))) = Release tango_event_mutex"
    using ok by (auto simp: onTangoEventAvailable_added onTangoEventAvailable_result
        split: sum.splits if_splits)
next
  fix p
  assume "reports (added w (snd (onTangoEventAvailable ev w))) = [p]"
  then show "added w (snd (onTangoEventAvailable ev w)) =
      [Acquire tango_event_mutex, Member UpdateTangoEvent_call, UpdateSavingAdfProgress p,
       Release tango_event_mutex]"
    by (auto simp: onTangoEventAvailable_added split: sum.splits if_splits)
qed

theorem onTangoEventAvailable_reports_under_lock_witness:
  "annotate [] (added (session False) (snd (onTangoEventAvailable
        (area_learning_event ''AreaDescriptionSaveProgress'' ''0.37'') (session False)))) =
     [([], Acquire tango_event_mutex),
      ([tango_event_mutex], Member UpdateTangoEvent_call),
      ([tango_event_mutex], UpdateSavingAdfProgress 37),
      ([tango_event_mutex], Release tango_event_mutex)] \<and>
   held_after [] (added (session False) (snd (onTangoEventAvailable
        (area_learning_event ''AreaDescriptionSaveProgress'' ''0.37'') (session False)))) = []"
proof -
  let ?ev = "area_learning_event ''AreaDescriptionSaveProgress'' ''0.37''"
  have r: "reports (added (session False) (snd (onTangoEventAvailable ?ev (session False)))) = [37]"
    by (simp add: onTangoEventAvailable_added area_learning_event_simps percent_037)
  have ok: "fst (onTangoEventAvailable ?ev (session False)) = Inr ()"
    by (simp add: onTangoEventAvailable_result area_learning_event_simps percent_037)
  from onTangoEventAvailable_reports_under_lock [of "session False" ?ev] r ok
  have "added (session False) (snd (onTangoEventAvailable ?ev (session False))) =
        [Acquire tango_event_mutex, Member UpdateTangoEvent_call, UpdateSavingAdfProgress 37,
         Release tango_event_mutex] \<and>
      held_after [] (added (session False) (snd (onTangoEventAvailable ?ev (session False)))) = []"
    by blast
  then show ?thesis by simp
qed

section \<open>Reads of the pose state\<close>

lemma Render_added:
  "added w (Render w) =
     [Acquire pose_mutex, Member GetCurrentPoseData_call, Release pose_mutex,
      Member IsRelocalized_call,
      SceneRender (GetCurrentPoseData (pose_data w)) (PoseData_IsRelocalized (pose_data w))]"
  by (simp add: Render_def step_def added_def Let_def)

lemma IsRelocalized_added:
  "added w (snd (IsRelocalized w)) =
     [Acquire pose_mutex, Member IsRelocalized_call, Release pose_mutex]"
  by (simp add: IsRelocalized_def step_def added_def Let_def)

lemma session_pose_data: "pose_data (session r) = PoseData_init\<lparr>is_relocalized := r\<rparr>"
  by (simp add: session_def)

text \<open>
  Claim C7 says every read of the pose state is made under the pose mutex, the flag read
  on the render path in particular. \<^verbatim>\<open>Render\<close> takes the mutex for
  \<^verbatim>\<open>GetCurrentPoseData\<close>, gives it back, and then reads the flag with no mutex held,
  whereas \<^verbatim>\<open>AreaLearningApp::IsRelocalized\<close> reads the same flag under the mutex.
\<close>

theorem Render_reads_flag_without_pose_lock:
  "annotate [] (added (session True) (Render (session True))) =
     [([], Acquire pose_mutex),
      ([pose_mutex], Member GetCurrentPoseData_call),
      ([pose_mutex], Release pose_mutex),
      ([], Member IsRelocalized_call),
      ([], SceneRender (None, None, None) True)] \<and>
   \<not> flag_read_under_pose_lock (added (session True) (Render (session True))) \<and>
   flag_read_under_pose_lock (added (session True) (snd (IsRelocalized (session True))))"
  by (simp add: Render_added IsRelocalized_added flag_read_under_pose_lock_def session_pose_data
      PoseData_init_def GetCurrentPoseData_def PoseData_IsRelocalized_def)

section \<open>Metadata calls and the listing when the service fails\<close>

text \<open>
  Claim C3 says a failed handle fetch returns the unknown-map failure without attempting
  the key read. With a service whose every call fails, \<^verbatim>\<open>GetAdfMetadataValue\<close> goes
  on to call \<^verbatim>\<open>TangoAreaDescriptionMetadata_get\<close> with the handle it never received, and
  then builds a string from an \<^verbatim>\<open>output\<close> pointer that was never assigned.
\<close>

theorem GetAdfMetadataValue_reads_key_after_failed_fetch:
  "service_calls (added (session False)
      (snd (GetAdfMetadataValue failing_service ''adf-1'' ''name'' (session False)))) =
     [GetAreaDescriptionMetadata ''adf-1'', Metadata_get Indeterminate ''name''] \<and>
   fst (GetAdfMetadataValue failing_service ''adf-1'' ''name'' (session False)) =
     Inl IndeterminateString"
  by (simp add: GetAdfMetadataValue_def TangoService_getAreaDescriptionMetadata_def
      TangoAreaDescriptionMetadata_get_def failing_service_def session_def step_def added_def
      assign_out_def std_string_def c_str_def)

text \<open>
  Claim C2 says a failed fetch prevents the mutate phase and a failed mutate prevents the
  persist phase. With a service whose every call fails, \<^verbatim>\<open>SetAdfMetadataValue\<close> makes
  all three calls, the last two with the handle it never received.
\<close>

theorem SetAdfMetadataValue_runs_all_phases_after_failed_fetch:
  "service_calls (added (session False)
      (SetAdfMetadataValue failing_service ''adf-1'' ''name'' ''Kitchen'' (session False))) =
     [GetAreaDescriptionMetadata ''adf-1'',
      Metadata_set Indeterminate ''name'' 7 ''Kitchen'',
      SaveAreaDescriptionMetadata ''adf-1'' Indeterminate]"
  by (simp add: SetAdfMetadataValue_def TangoService_getAreaDescriptionMetadata_def
      TangoAreaDescriptionMetadata_set_def TangoService_saveAreaDescriptionMetadata_def
      failing_service_def session_def step_def added_def assign_out_def c_str_def)

text \<open>
  Claim C9 says every operation returns safely and reports failure as a typed result even
  when the store call fails and leaves the output pointer null or unset. With a service
  whose every call fails, \<^verbatim>\<open>GetAllAdfUuids\<close> builds a \<^verbatim>\<open>std::string\<close> from the null
  \<^verbatim>\<open>uuid_list\<close> and \<^verbatim>\<open>GetAdfMetadataValue\<close> from the unassigned \<^verbatim>\<open>output\<close>; the
  sibling \<^verbatim>\<open>GetAdfUuids\<close> tests the pointer first and returns normally.
\<close>

theorem GetAllAdfUuids_faults_on_failed_listing:
  "fst (GetAllAdfUuids failing_service (session False)) = Inl NullString \<and>
   fst (GetAdfMetadataValue failing_service ''adf-1'' ''name'' (session False)) =
     Inl IndeterminateString \<and>
   fst (GetAdfUuids failing_service [] (session False)) = Inr []"
  by (simp add: GetAllAdfUuids_def TangoService_getConfig_def
      TangoService_getAreaDescriptionUUIDList_def GetAdfMetadataValue_def
      TangoService_getAreaDescriptionMetadata_def TangoAreaDescriptionMetadata_get_def
      GetAdfUuids_def failing_service_def session_def step_def
      assign_out_def std_string_def c_str_def)

end
